theory Spec2Isabelle
  imports Main "HOL-Library.Word"
begin

unbundle bit_operations_syntax

section \<open>The AMQP typed-value engine of proton-c (codec.c)\<close>

text \<open>
  A shallow embedding of \<^verbatim>\<open>proton-c/src/codec/codec.c\<close>: the primitive byte I/O,
  the atom codec, the value tree with its cursor, the encode and decode walks, and the
  fill and scan format interpreters.

  Conventions of the embedding.
  \<^item> Memory is a flat function from addresses to bytes; a \<^verbatim>\<open>char *\<close> is an address.
    A \<^verbatim>\<open>pn_bytes_t\<close> is the pair of a remaining size and a start address, as in C.
  \<^item> A function that returns an \<^verbatim>\<open>int\<close> status and mutates its arguments
    returns the status (\<open>None\<close> for 0, \<open>Some e\<close> for the negative code \<open>e\<close>) together
    with the new value of everything it mutates.
  \<^item> \<^verbatim>\<open>size_t\<close> quantities are \<open>nat\<close>: the sizes of real buffers are far from
    \<open>2^64\<close>, so the C additions on them do not wrap.
  \<^item> Fixed-width payloads are words of their width; a signed field is the word holding
    its two's complement bits (\<open>sint\<close> reads it). Floats and doubles are carried as
    their IEEE bit patterns, which is all the codec does with them (\<^verbatim>\<open>conv_t\<close>).
\<close>

subsection \<open>Kinds, status codes and type codes\<close>

text \<open>
  \<^verbatim>\<open>pn_type_t\<close> (codec.h) with the internal \<^verbatim>\<open>PN_TYPE\<close> of codec.c;
  \<^verbatim>\<open>PN_DESCRIPTOR\<close> is codec.c's name for \<^verbatim>\<open>PN_DESCRIBED\<close>.
\<close>

datatype pn_type =
    PN_NULL | PN_BOOL | PN_UBYTE | PN_BYTE | PN_USHORT | PN_SHORT | PN_UINT | PN_INT
  | PN_CHAR | PN_ULONG | PN_LONG | PN_TIMESTAMP | PN_FLOAT | PN_DOUBLE
  | PN_DECIMAL32 | PN_DECIMAL64 | PN_DECIMAL128 | PN_UUID
  | PN_BINARY | PN_STRING | PN_SYMBOL | PN_DESCRIPTOR | PN_ARRAY | PN_LIST | PN_MAP
  | PN_TYPE

text \<open>
  The negative status codes of error.h that codec.c returns. \<open>PN_FATAL\<close> is not a
  return code: it stands for the places where the C program aborts (\<^verbatim>\<open>pn_fatal\<close>) or
  has no defined behaviour (a null dereference, a copy from a pointer that the program
  never stored).
\<close>

datatype pn_error = PN_ERR | PN_OVERFLOW | PN_UNDERFLOW | PN_ARG_ERR | PN_FATAL

text \<open>
  Modelled from the spec: encodings.h is not part of the sources; the type codes are
  those of the AMQP 1.0 type system the specification names (ISO/IEC 19464, 1.6), of
  which the specification itself quotes \<open>0x00\<close> (descriptor), \<open>0x53\<close> (smallulong),
  \<open>0x55\<close> (smalllong) and \<open>0x70\<close> (uint).
\<close>

abbreviation PNE_DESCRIPTOR :: "8 word" where "PNE_DESCRIPTOR \<equiv> 0x00"
abbreviation PNE_NULL :: "8 word" where "PNE_NULL \<equiv> 0x40"
abbreviation PNE_TRUE :: "8 word" where "PNE_TRUE \<equiv> 0x41"
abbreviation PNE_FALSE :: "8 word" where "PNE_FALSE \<equiv> 0x42"
abbreviation PNE_UINT0 :: "8 word" where "PNE_UINT0 \<equiv> 0x43"
abbreviation PNE_ULONG0 :: "8 word" where "PNE_ULONG0 \<equiv> 0x44"
abbreviation PNE_LIST0 :: "8 word" where "PNE_LIST0 \<equiv> 0x45"
abbreviation PNE_UBYTE :: "8 word" where "PNE_UBYTE \<equiv> 0x50"
abbreviation PNE_BYTE :: "8 word" where "PNE_BYTE \<equiv> 0x51"
abbreviation PNE_SMALLUINT :: "8 word" where "PNE_SMALLUINT \<equiv> 0x52"
abbreviation PNE_SMALLULONG :: "8 word" where "PNE_SMALLULONG \<equiv> 0x53"
abbreviation PNE_SMALLINT :: "8 word" where "PNE_SMALLINT \<equiv> 0x54"
abbreviation PNE_SMALLLONG :: "8 word" where "PNE_SMALLLONG \<equiv> 0x55"
abbreviation PNE_BOOLEAN :: "8 word" where "PNE_BOOLEAN \<equiv> 0x56"
abbreviation PNE_USHORT :: "8 word" where "PNE_USHORT \<equiv> 0x60"
abbreviation PNE_SHORT :: "8 word" where "PNE_SHORT \<equiv> 0x61"
abbreviation PNE_UINT :: "8 word" where "PNE_UINT \<equiv> 0x70"
abbreviation PNE_INT :: "8 word" where "PNE_INT \<equiv> 0x71"
abbreviation PNE_FLOAT :: "8 word" where "PNE_FLOAT \<equiv> 0x72"
abbreviation PNE_UTF32 :: "8 word" where "PNE_UTF32 \<equiv> 0x73"
abbreviation PNE_DECIMAL32 :: "8 word" where "PNE_DECIMAL32 \<equiv> 0x74"
abbreviation PNE_ULONG :: "8 word" where "PNE_ULONG \<equiv> 0x80"
abbreviation PNE_LONG :: "8 word" where "PNE_LONG \<equiv> 0x81"
abbreviation PNE_DOUBLE :: "8 word" where "PNE_DOUBLE \<equiv> 0x82"
abbreviation PNE_MS64 :: "8 word" where "PNE_MS64 \<equiv> 0x83"
abbreviation PNE_DECIMAL64 :: "8 word" where "PNE_DECIMAL64 \<equiv> 0x84"
abbreviation PNE_DECIMAL128 :: "8 word" where "PNE_DECIMAL128 \<equiv> 0x94"
abbreviation PNE_UUID :: "8 word" where "PNE_UUID \<equiv> 0x98"
abbreviation PNE_VBIN8 :: "8 word" where "PNE_VBIN8 \<equiv> 0xA0"
abbreviation PNE_STR8_UTF8 :: "8 word" where "PNE_STR8_UTF8 \<equiv> 0xA1"
abbreviation PNE_SYM8 :: "8 word" where "PNE_SYM8 \<equiv> 0xA3"
abbreviation PNE_VBIN32 :: "8 word" where "PNE_VBIN32 \<equiv> 0xB0"
abbreviation PNE_STR32_UTF8 :: "8 word" where "PNE_STR32_UTF8 \<equiv> 0xB1"
abbreviation PNE_SYM32 :: "8 word" where "PNE_SYM32 \<equiv> 0xB3"
abbreviation PNE_LIST8 :: "8 word" where "PNE_LIST8 \<equiv> 0xC0"
abbreviation PNE_MAP8 :: "8 word" where "PNE_MAP8 \<equiv> 0xC1"
abbreviation PNE_LIST32 :: "8 word" where "PNE_LIST32 \<equiv> 0xD0"
abbreviation PNE_MAP32 :: "8 word" where "PNE_MAP32 \<equiv> 0xD1"
abbreviation PNE_ARRAY8 :: "8 word" where "PNE_ARRAY8 \<equiv> 0xE0"
abbreviation PNE_ARRAY32 :: "8 word" where "PNE_ARRAY32 \<equiv> 0xF0"

subsection \<open>Atoms\<close>

text \<open>
  \<^verbatim>\<open>pn_iatom_t\<close>: the tag with the member of the union that was stored. A byte span
  (\<^verbatim>\<open>pn_bytes_t\<close> payload of binary, string and symbol) is carried by its contents;
  a 16-byte block (\<^verbatim>\<open>char bytes[16]\<close>) is the list of its 16 bytes. The composite
  atoms carry \<^verbatim>\<open>u.count\<close>, the type reference carries \<^verbatim>\<open>u.type\<close>: \<open>Some\<close> of a
  member of \<^verbatim>\<open>pn_type_t\<close>, or \<open>None\<close> for a value that is no member of the enumeration
  (the array decoder stores \<^verbatim>\<open>(pn_type_t) PN_ARG_ERR\<close> for an unknown type code). The
  descriptor marker has no payload.
\<close>

datatype pn_iatom =
    A_NULL
  | A_BOOL bool
  | A_UBYTE "8 word"
  | A_BYTE "8 word"
  | A_USHORT "16 word"
  | A_SHORT "16 word"
  | A_UINT "32 word"
  | A_INT "32 word"
  | A_CHAR "32 word"
  | A_ULONG "64 word"
  | A_LONG "64 word"
  | A_TIMESTAMP "64 word"
  | A_FLOAT "32 word"
  | A_DOUBLE "64 word"
  | A_DECIMAL32 "32 word"
  | A_DECIMAL64 "64 word"
  | A_DECIMAL128 "8 word list"
  | A_UUID "8 word list"
  | A_BINARY "8 word list"
  | A_STRING "8 word list"
  | A_SYMBOL "8 word list"
  | A_DESCRIPTOR
  | A_ARRAY nat
  | A_LIST nat
  | A_MAP nat
  | A_TYPE "pn_type option"

fun atom_type :: "pn_iatom \<Rightarrow> pn_type" where
  "atom_type A_NULL = PN_NULL"
| "atom_type (A_BOOL _) = PN_BOOL"
| "atom_type (A_UBYTE _) = PN_UBYTE"
| "atom_type (A_BYTE _) = PN_BYTE"
| "atom_type (A_USHORT _) = PN_USHORT"
| "atom_type (A_SHORT _) = PN_SHORT"
| "atom_type (A_UINT _) = PN_UINT"
| "atom_type (A_INT _) = PN_INT"
| "atom_type (A_CHAR _) = PN_CHAR"
| "atom_type (A_ULONG _) = PN_ULONG"
| "atom_type (A_LONG _) = PN_LONG"
| "atom_type (A_TIMESTAMP _) = PN_TIMESTAMP"
| "atom_type (A_FLOAT _) = PN_FLOAT"
| "atom_type (A_DOUBLE _) = PN_DOUBLE"
| "atom_type (A_DECIMAL32 _) = PN_DECIMAL32"
| "atom_type (A_DECIMAL64 _) = PN_DECIMAL64"
| "atom_type (A_DECIMAL128 _) = PN_DECIMAL128"
| "atom_type (A_UUID _) = PN_UUID"
| "atom_type (A_BINARY _) = PN_BINARY"
| "atom_type (A_STRING _) = PN_STRING"
| "atom_type (A_SYMBOL _) = PN_SYMBOL"
| "atom_type A_DESCRIPTOR = PN_DESCRIPTOR"
| "atom_type (A_ARRAY _) = PN_ARRAY"
| "atom_type (A_LIST _) = PN_LIST"
| "atom_type (A_MAP _) = PN_MAP"
| "atom_type (A_TYPE _) = PN_TYPE"

subsection \<open>Primitive I/O over a cursor\<close>

type_synonym memory = "nat \<Rightarrow> 8 word"

record pn_bytes =
  size_b :: nat
  start_b :: nat

text \<open>The flat atom buffer \<^verbatim>\<open>pn_atoms_t\<close>: the free slots left and the atoms stored so far.\<close>

record pn_atoms =
  size_a :: nat
  out_a :: "pn_iatom list"

definition pn_bytes_ltrim :: "pn_bytes \<Rightarrow> nat \<Rightarrow> pn_bytes" where
  "pn_bytes_ltrim bytes sz =
     (let sz' = (if sz > size_b bytes then size_b bytes else sz)
      in bytes\<lparr>start_b := start_b bytes + sz', size_b := size_b bytes - sz'\<rparr>)"

text \<open>\<^verbatim>\<open>atoms->start[0] = atom; pn_atoms_ltrim(atoms, 1)\<close>, after the caller's size check.\<close>

definition atoms_put :: "pn_atoms \<Rightarrow> pn_iatom \<Rightarrow> pn_atoms" where
  "atoms_put atoms atom =
     atoms\<lparr>out_a := out_a atoms @ [atom],
           size_a := size_a atoms - (if 1 > size_a atoms then size_a atoms else 1)\<rparr>"

text \<open>\<^verbatim>\<open>memmove(dst, src, n)\<close> of a span given by its contents, and the read of a span.\<close>

fun mem_write :: "memory \<Rightarrow> nat \<Rightarrow> 8 word list \<Rightarrow> memory" where
  "mem_write mem a [] = mem"
| "mem_write mem a (x # xs) = mem_write (mem(a := x)) (Suc a) xs"

fun mem_read :: "memory \<Rightarrow> nat \<Rightarrow> nat \<Rightarrow> 8 word list" where
  "mem_read mem a 0 = []"
| "mem_read mem a (Suc n) = mem a # mem_read mem (Suc a) n"

definition pn_i_bytes_writef8 ::
  "memory \<Rightarrow> pn_bytes \<Rightarrow> 8 word \<Rightarrow> pn_error option \<times> memory \<times> pn_bytes" where
  "pn_i_bytes_writef8 mem bytes v =
     (if size_b bytes \<noteq> 0
      then (None, mem(start_b bytes := v), pn_bytes_ltrim bytes 1)
      else (Some PN_OVERFLOW, mem, bytes))"

definition pn_i_bytes_writef16 ::
  "memory \<Rightarrow> pn_bytes \<Rightarrow> 16 word \<Rightarrow> pn_error option \<times> memory \<times> pn_bytes" where
  "pn_i_bytes_writef16 mem bytes v =
     (if size_b bytes < 2 then (Some PN_OVERFLOW, mem, bytes)
      else (None,
            mem(start_b bytes := ucast (0xFF AND drop_bit 8 v),
                start_b bytes + 1 := ucast (0xFF AND v)),
            pn_bytes_ltrim bytes 2))"

definition pn_i_bytes_writef32 ::
  "memory \<Rightarrow> pn_bytes \<Rightarrow> 32 word \<Rightarrow> pn_error option \<times> memory \<times> pn_bytes" where
  "pn_i_bytes_writef32 mem bytes v =
     (if size_b bytes < 4 then (Some PN_OVERFLOW, mem, bytes)
      else (None,
            mem(start_b bytes := ucast (0xFF AND drop_bit 24 v),
                start_b bytes + 1 := ucast (0xFF AND drop_bit 16 v),
                start_b bytes + 2 := ucast (0xFF AND drop_bit 8 v),
                start_b bytes + 3 := ucast (0xFF AND v)),
            pn_bytes_ltrim bytes 4))"

definition pn_i_bytes_writef64 ::
  "memory \<Rightarrow> pn_bytes \<Rightarrow> 64 word \<Rightarrow> pn_error option \<times> memory \<times> pn_bytes" where
  "pn_i_bytes_writef64 mem bytes v =
     (if size_b bytes < 8 then (Some PN_OVERFLOW, mem, bytes)
      else (None,
            mem(start_b bytes := ucast (0xFF AND drop_bit 56 v),
                start_b bytes + 1 := ucast (0xFF AND drop_bit 48 v),
                start_b bytes + 2 := ucast (0xFF AND drop_bit 40 v),
                start_b bytes + 3 := ucast (0xFF AND drop_bit 32 v),
                start_b bytes + 4 := ucast (0xFF AND drop_bit 24 v),
                start_b bytes + 5 := ucast (0xFF AND drop_bit 16 v),
                start_b bytes + 6 := ucast (0xFF AND drop_bit 8 v),
                start_b bytes + 7 := ucast (0xFF AND v)),
            pn_bytes_ltrim bytes 8))"

text \<open>The 16-byte block is copied from the first 16 bytes of the value.\<close>

definition pn_i_bytes_writef128 ::
  "memory \<Rightarrow> pn_bytes \<Rightarrow> 8 word list \<Rightarrow> pn_error option \<times> memory \<times> pn_bytes" where
  "pn_i_bytes_writef128 mem bytes v =
     (if size_b bytes < 16 then (Some PN_OVERFLOW, mem, bytes)
      else (None, mem_write mem (start_b bytes) (take 16 v), pn_bytes_ltrim bytes 16))"

text \<open>
  The length prefix is \<^verbatim>\<open>value->size\<close> converted to the prefix width
  (\<^verbatim>\<open>uint8_t\<close>, \<^verbatim>\<open>uint32_t\<close>).
\<close>

definition pn_i_bytes_writev8 ::
  "memory \<Rightarrow> pn_bytes \<Rightarrow> 8 word list \<Rightarrow> pn_error option \<times> memory \<times> pn_bytes" where
  "pn_i_bytes_writev8 mem bytes v =
     (if size_b bytes < 1 + length v then (Some PN_OVERFLOW, mem, bytes)
      else (case pn_i_bytes_writef8 mem bytes (of_nat (length v)) of
              (Some e, mem1, bytes1) \<Rightarrow> (Some e, mem1, bytes1)
            | (None, mem1, bytes1) \<Rightarrow>
                (None, mem_write mem1 (start_b bytes1) v, pn_bytes_ltrim bytes1 (length v))))"

definition pn_i_bytes_writev32 ::
  "memory \<Rightarrow> pn_bytes \<Rightarrow> 8 word list \<Rightarrow> pn_error option \<times> memory \<times> pn_bytes" where
  "pn_i_bytes_writev32 mem bytes v =
     (if size_b bytes < 4 + length v then (Some PN_OVERFLOW, mem, bytes)
      else (case pn_i_bytes_writef32 mem bytes (of_nat (length v)) of
              (Some e, mem1, bytes1) \<Rightarrow> (Some e, mem1, bytes1)
            | (None, mem1, bytes1) \<Rightarrow>
                (None, mem_write mem1 (start_b bytes1) v, pn_bytes_ltrim bytes1 (length v))))"

text \<open>The readers have no check of their own: the caller compares the size first.\<close>

definition pn_i_bytes_readf8 :: "memory \<Rightarrow> pn_bytes \<Rightarrow> 8 word \<times> pn_bytes" where
  "pn_i_bytes_readf8 mem bytes = (mem (start_b bytes), pn_bytes_ltrim bytes 1)"

definition pn_i_bytes_readf16 :: "memory \<Rightarrow> pn_bytes \<Rightarrow> 16 word \<times> pn_bytes" where
  "pn_i_bytes_readf16 mem bytes =
     (let a = (ucast (mem (start_b bytes)) :: 16 word);
          b = (ucast (mem (start_b bytes + 1)) :: 16 word)
      in (push_bit 8 a OR b, pn_bytes_ltrim bytes 2))"

definition pn_i_bytes_readf32 :: "memory \<Rightarrow> pn_bytes \<Rightarrow> 32 word \<times> pn_bytes" where
  "pn_i_bytes_readf32 mem bytes =
     (let a = (ucast (mem (start_b bytes)) :: 32 word);
          b = (ucast (mem (start_b bytes + 1)) :: 32 word);
          c = (ucast (mem (start_b bytes + 2)) :: 32 word);
          d = (ucast (mem (start_b bytes + 3)) :: 32 word)
      in (push_bit 24 a OR push_bit 16 b OR push_bit 8 c OR d, pn_bytes_ltrim bytes 4))"

definition pn_i_bytes_readf64 :: "memory \<Rightarrow> pn_bytes \<Rightarrow> 64 word \<times> pn_bytes" where
  "pn_i_bytes_readf64 mem bytes =
     (let (a, bytes1) = pn_i_bytes_readf32 mem bytes;
          (b, bytes2) = pn_i_bytes_readf32 mem bytes1
      in (push_bit 32 (ucast a :: 64 word) OR ucast b, bytes2))"

subsection \<open>Atom codec: decoding\<close>

text \<open>
  \<^verbatim>\<open>pn_code2type\<close>: \<open>Inl PN_ARG_ERR\<close> is the return value \<^verbatim>\<open>(pn_type_t) PN_ARG_ERR\<close>.
\<close>

definition pn_code2type :: "8 word \<Rightarrow> pn_error + pn_type" where
  "pn_code2type code =
     (if code = PNE_DESCRIPTOR then Inl PN_ARG_ERR
      else if code = PNE_NULL then Inr PN_NULL
      else if code = PNE_TRUE \<or> code = PNE_FALSE \<or> code = PNE_BOOLEAN then Inr PN_BOOL
      else if code = PNE_UBYTE then Inr PN_UBYTE
      else if code = PNE_BYTE then Inr PN_BYTE
      else if code = PNE_USHORT then Inr PN_USHORT
      else if code = PNE_SHORT then Inr PN_SHORT
      else if code = PNE_UINT0 \<or> code = PNE_SMALLUINT \<or> code = PNE_SMALLINT \<or> code = PNE_UINT
        then Inr PN_UINT
      else if code = PNE_INT then Inr PN_INT
      else if code = PNE_UTF32 then Inr PN_CHAR
      else if code = PNE_FLOAT then Inr PN_FLOAT
      else if code = PNE_LONG then Inr PN_LONG
      else if code = PNE_MS64 then Inr PN_TIMESTAMP
      else if code = PNE_DOUBLE then Inr PN_DOUBLE
      else if code = PNE_DECIMAL32 then Inr PN_DECIMAL32
      else if code = PNE_DECIMAL64 then Inr PN_DECIMAL64
      else if code = PNE_DECIMAL128 then Inr PN_DECIMAL128
      else if code = PNE_UUID then Inr PN_UUID
      else if code = PNE_ULONG0 \<or> code = PNE_SMALLULONG \<or> code = PNE_SMALLLONG \<or> code = PNE_ULONG
        then Inr PN_ULONG
      else if code = PNE_VBIN8 \<or> code = PNE_VBIN32 then Inr PN_BINARY
      else if code = PNE_STR8_UTF8 \<or> code = PNE_STR32_UTF8 then Inr PN_STRING
      else if code = PNE_SYM8 \<or> code = PNE_SYM32 then Inr PN_SYMBOL
      else if code = PNE_LIST0 \<or> code = PNE_LIST8 \<or> code = PNE_LIST32 then Inr PN_LIST
      else if code = PNE_ARRAY8 \<or> code = PNE_ARRAY32 then Inr PN_ARRAY
      else if code = PNE_MAP8 \<or> code = PNE_MAP32 then Inr PN_MAP
      else Inl PN_ARG_ERR)"

text \<open>
  The cases of the switch of \<^verbatim>\<open>pn_decode_value\<close> that fill the local \<^verbatim>\<open>atom\<close> and
  \<^verbatim>\<open>break\<close> to the common tail, in the order of the source: the result is the error
  returned or the atom built, with the cursor as the case leaves it. \<open>None\<close> for the
  codes of the other cases (the compound codes and the default).
\<close>

definition pn_decode_value_leaf ::
  "memory \<Rightarrow> pn_bytes \<Rightarrow> 8 word \<Rightarrow> ((pn_error + pn_iatom) \<times> pn_bytes) option" where
  "pn_decode_value_leaf mem bytes code =
     (if code = PNE_DESCRIPTOR then Some (Inl PN_ARG_ERR, bytes)
      else if code = PNE_NULL then Some (Inr A_NULL, bytes)
      else if code = PNE_TRUE then Some (Inr (A_BOOL True), bytes)
      else if code = PNE_FALSE then Some (Inr (A_BOOL False), bytes)
      else if code = PNE_BOOLEAN then
        (if size_b bytes = 0 then Some (Inl PN_UNDERFLOW, bytes)
         else let (r, bytes1) = pn_i_bytes_readf8 mem bytes in Some (Inr (A_BOOL (r \<noteq> 0)), bytes1))
      else if code = PNE_UBYTE then
        (if size_b bytes = 0 then Some (Inl PN_UNDERFLOW, bytes)
         else let (r, bytes1) = pn_i_bytes_readf8 mem bytes in Some (Inr (A_UBYTE r), bytes1))
      else if code = PNE_BYTE then
        (if size_b bytes = 0 then Some (Inl PN_UNDERFLOW, bytes)
         else let (r, bytes1) = pn_i_bytes_readf8 mem bytes in Some (Inr (A_BYTE r), bytes1))
      else if code = PNE_USHORT then
        (if size_b bytes < 2 then Some (Inl PN_UNDERFLOW, bytes)
         else let (r, bytes1) = pn_i_bytes_readf16 mem bytes in Some (Inr (A_USHORT r), bytes1))
      else if code = PNE_SHORT then
        (if size_b bytes < 2 then Some (Inl PN_UNDERFLOW, bytes)
         else let (r, bytes1) = pn_i_bytes_readf16 mem bytes in Some (Inr (A_SHORT r), bytes1))
      else if code = PNE_UINT then
        (if size_b bytes < 4 then Some (Inl PN_UNDERFLOW, bytes)
         else let (r, bytes1) = pn_i_bytes_readf32 mem bytes in Some (Inr (A_UINT r), bytes1))
      else if code = PNE_UINT0 then Some (Inr (A_UINT 0), bytes)
      else if code = PNE_SMALLUINT then
        (if size_b bytes = 0 then Some (Inl PN_UNDERFLOW, bytes)
         else let (r, bytes1) = pn_i_bytes_readf8 mem bytes in Some (Inr (A_UINT (ucast r)), bytes1))
      else if code = PNE_SMALLINT then
        (if size_b bytes = 0 then Some (Inl PN_UNDERFLOW, bytes)
         else let (r, bytes1) = pn_i_bytes_readf8 mem bytes in Some (Inr (A_INT (ucast r)), bytes1))
      else if code = PNE_INT then
        (if size_b bytes < 4 then Some (Inl PN_UNDERFLOW, bytes)
         else let (r, bytes1) = pn_i_bytes_readf32 mem bytes in Some (Inr (A_INT r), bytes1))
      else if code = PNE_UTF32 then
        (if size_b bytes < 4 then Some (Inl PN_UNDERFLOW, bytes)
         else let (r, bytes1) = pn_i_bytes_readf32 mem bytes in Some (Inr (A_CHAR r), bytes1))
      else if code = PNE_FLOAT then
        (if size_b bytes < 4 then Some (Inl PN_UNDERFLOW, bytes)
         else let (r, bytes1) = pn_i_bytes_readf32 mem bytes in Some (Inr (A_FLOAT r), bytes1))
      else if code = PNE_DECIMAL32 then
        (if size_b bytes < 4 then Some (Inl PN_UNDERFLOW, bytes)
         else let (r, bytes1) = pn_i_bytes_readf32 mem bytes in Some (Inr (A_DECIMAL32 r), bytes1))
      else if code = PNE_ULONG then
        (if size_b bytes < 8 then Some (Inl PN_UNDERFLOW, bytes)
         else let (r, bytes1) = pn_i_bytes_readf64 mem bytes in Some (Inr (A_ULONG r), bytes1))
      else if code = PNE_LONG then
        (if size_b bytes < 8 then Some (Inl PN_UNDERFLOW, bytes)
         else let (r, bytes1) = pn_i_bytes_readf64 mem bytes in Some (Inr (A_LONG r), bytes1))
      else if code = PNE_MS64 then
        (if size_b bytes < 8 then Some (Inl PN_UNDERFLOW, bytes)
         else let (r, bytes1) = pn_i_bytes_readf64 mem bytes in Some (Inr (A_TIMESTAMP r), bytes1))
      else if code = PNE_DOUBLE then
        (if size_b bytes < 8 then Some (Inl PN_UNDERFLOW, bytes)
         else let (r, bytes1) = pn_i_bytes_readf64 mem bytes in Some (Inr (A_DOUBLE r), bytes1))
      else if code = PNE_DECIMAL64 then
        (if size_b bytes < 8 then Some (Inl PN_UNDERFLOW, bytes)
         else let (r, bytes1) = pn_i_bytes_readf64 mem bytes in Some (Inr (A_DECIMAL64 r), bytes1))
      else if code = PNE_ULONG0 then Some (Inr (A_ULONG 0), bytes)
      else if code = PNE_SMALLULONG then
        (if size_b bytes = 0 then Some (Inl PN_UNDERFLOW, bytes)
         else let (r, bytes1) = pn_i_bytes_readf8 mem bytes in Some (Inr (A_ULONG (ucast r)), bytes1))
      else if code = PNE_SMALLLONG then
        (if size_b bytes = 0 then Some (Inl PN_UNDERFLOW, bytes)
         else let (r, bytes1) = pn_i_bytes_readf8 mem bytes in Some (Inr (A_LONG (scast r)), bytes1))
      else if code = PNE_DECIMAL128 then
        (if size_b bytes < 16 then Some (Inl PN_UNDERFLOW, bytes)
         else Some (Inr (A_DECIMAL128 (mem_read mem (start_b bytes) 16)), pn_bytes_ltrim bytes 16))
      else if code = PNE_UUID then
        (if size_b bytes < 16 then Some (Inl PN_UNDERFLOW, bytes)
         else Some (Inr (A_UUID (mem_read mem (start_b bytes) 16)), pn_bytes_ltrim bytes 16))
      else if code = PNE_VBIN8 \<or> code = PNE_STR8_UTF8 \<or> code = PNE_SYM8
              \<or> code = PNE_VBIN32 \<or> code = PNE_STR32_UTF8 \<or> code = PNE_SYM32 then
        (case (if code AND 0xF0 = 0xA0 then
                 (if size_b bytes = 0 then Inl PN_UNDERFLOW
                  else let (r, bytes1) = pn_i_bytes_readf8 mem bytes in Inr (unat r, bytes1))
               else if code AND 0xF0 = 0xB0 then
                 (if size_b bytes < 4 then Inl PN_UNDERFLOW
                  else let (r, bytes1) = pn_i_bytes_readf32 mem bytes in Inr (unat r, bytes1))
               else Inl PN_ARG_ERR) of
           Inl e \<Rightarrow> Some (Inl e, bytes)
         | Inr (sz, bytes1) \<Rightarrow>
             (let binary = mem_read mem (start_b bytes1) sz in
              case (if code AND 0x0F = 0x0 then Inr (A_BINARY binary)
                    else if code AND 0x0F = 0x1 then Inr (A_STRING binary)
                    else if code AND 0x0F = 0x3 then Inr (A_SYMBOL binary)
                    else Inl PN_ARG_ERR) of
                Inl e \<Rightarrow> Some (Inl e, bytes1)
              | Inr atom \<Rightarrow>
                  if size_b bytes1 < sz then Some (Inl PN_UNDERFLOW, bytes1)
                  else Some (Inr atom, pn_bytes_ltrim bytes1 sz)))
      else if code = PNE_LIST0 then Some (Inr (A_LIST 0), bytes)
      else None)"

text \<open>
  The head of the compound cases: the size and the count, read at the width of the code.
  The 32-bit widths are read without a size check, as in the source.
\<close>

definition decode_compound_header ::
  "memory \<Rightarrow> pn_bytes \<Rightarrow> 8 word \<Rightarrow> (pn_error + nat \<times> nat) \<times> pn_bytes" where
  "decode_compound_header mem bytes code =
     (if code = PNE_ARRAY8 \<or> code = PNE_LIST8 \<or> code = PNE_MAP8 then
        (if size_b bytes < 2 then (Inl PN_UNDERFLOW, bytes)
         else let (sz, bytes1) = pn_i_bytes_readf8 mem bytes;
                  (cnt, bytes2) = pn_i_bytes_readf8 mem bytes1
              in (Inr (unat sz, unat cnt), bytes2))
      else if code = PNE_ARRAY32 \<or> code = PNE_LIST32 \<or> code = PNE_MAP32 then
        (let (sz, bytes1) = pn_i_bytes_readf32 mem bytes;
             (cnt, bytes2) = pn_i_bytes_readf32 mem bytes1
         in (Inr (unat sz, unat cnt), bytes2))
      else (Inl PN_ARG_ERR, bytes))"

text \<open>
  \<^verbatim>\<open>pn_decode_value\<close> up to its first recursive call: either the function returns
  (\<open>Done\<close>: the leaf cases with the common tail that stores the atom, and every error
  return), or the array atom has been stored and the element type is to be decoded
  (\<open>Array_Body\<close>), or the list or map atom has been stored and \<open>count\<close> elements follow
  (\<open>Compound_Body\<close>).
\<close>

datatype decode_next =
    Done "pn_error option" pn_bytes pn_atoms
  | Array_Body nat pn_bytes pn_atoms
  | Compound_Body nat pn_bytes pn_atoms

definition pn_decode_value_head ::
  "memory \<Rightarrow> pn_bytes \<Rightarrow> pn_atoms \<Rightarrow> 8 word \<Rightarrow> decode_next" where
  "pn_decode_value_head mem bytes atoms code =
     (if size_a atoms = 0 then Done (Some PN_OVERFLOW) bytes atoms
      else case pn_decode_value_leaf mem bytes code of
        Some (Inl e, bytes1) \<Rightarrow> Done (Some e) bytes1 atoms
      | Some (Inr atom, bytes1) \<Rightarrow>
          (if size_a atoms = 0 then Done (Some PN_OVERFLOW) bytes1 atoms
           else Done None bytes1 (atoms_put atoms atom))
      | None \<Rightarrow>
          if code = PNE_ARRAY8 \<or> code = PNE_ARRAY32 \<or> code = PNE_LIST8 \<or> code = PNE_LIST32
             \<or> code = PNE_MAP8 \<or> code = PNE_MAP32 then
            (case decode_compound_header mem bytes code of
               (Inl e, bytes1) \<Rightarrow> Done (Some e) bytes1 atoms
             | (Inr (sz, count), bytes1) \<Rightarrow>
                 if code = PNE_ARRAY8 \<or> code = PNE_ARRAY32 then
                   (if size_a atoms = 0 then Done (Some PN_OVERFLOW) bytes1 atoms
                    else Array_Body count bytes1 (atoms_put atoms (A_ARRAY count)))
                 else if code = PNE_LIST8 \<or> code = PNE_LIST32 then
                   (if size_a atoms = 0 then Done (Some PN_OVERFLOW) bytes1 atoms
                    else Compound_Body count bytes1 (atoms_put atoms (A_LIST count)))
                 else
                   (if size_a atoms = 0 then Done (Some PN_OVERFLOW) bytes1 atoms
                    else Compound_Body count bytes1 (atoms_put atoms (A_MAP count))))
          else Done (Some PN_ARG_ERR) bytes atoms)"

text \<open>
  After \<^verbatim>\<open>pn_decode_type\<close> in the array case: the overflow check, \<^verbatim>\<open>pn_code2type\<close>
  and the type-reference atom. The statement \<^verbatim>\<open>if (type < 0) return type;\<close> between them
  never returns: \<^verbatim>\<open>pn_type_t\<close> is an enumeration without negative members, which the
  compiler represents in an unsigned type, so \<^verbatim>\<open>(pn_type_t) PN_ARG_ERR\<close> is a large
  positive value. For a code that \<^verbatim>\<open>pn_code2type\<close> does not know, the atom therefore
  stores that value, which is no member of the enumeration (\<open>None\<close>), and the decoder
  goes on.
\<close>

definition array_type_atom :: "pn_atoms \<Rightarrow> 8 word \<Rightarrow> pn_error + pn_atoms" where
  "array_type_atom atoms acode =
     (if size_a atoms = 0 then Inl PN_OVERFLOW
      else Inr (atoms_put atoms
                  (A_TYPE (case pn_code2type acode of Inl e \<Rightarrow> None | Inr type \<Rightarrow> Some type))))"

text \<open>
  The three mutually recursive decoders and the two \<^verbatim>\<open>for\<close> loops of
  \<^verbatim>\<open>pn_decode_value\<close>. The first argument is fuel, one unit per call; \<open>None\<close> is
  "fuel exhausted", never a result of the C function. The loop counter, an \<^verbatim>\<open>int\<close>
  compared with a \<^verbatim>\<open>size_t\<close> in C, counts down the remaining iterations.
\<close>

type_synonym decode_result = "(pn_error option \<times> pn_bytes \<times> pn_atoms) option"

function (sequential) pn_decode_type ::
      "nat \<Rightarrow> memory \<Rightarrow> pn_bytes \<Rightarrow> pn_atoms \<Rightarrow> ((pn_error + 8 word) \<times> pn_bytes \<times> pn_atoms) option"
  and pn_decode_value :: "nat \<Rightarrow> memory \<Rightarrow> pn_bytes \<Rightarrow> pn_atoms \<Rightarrow> 8 word \<Rightarrow> decode_result"
  and pn_decode_atom :: "nat \<Rightarrow> memory \<Rightarrow> pn_bytes \<Rightarrow> pn_atoms \<Rightarrow> decode_result"
  and decode_array_elements ::
      "nat \<Rightarrow> nat \<Rightarrow> memory \<Rightarrow> pn_bytes \<Rightarrow> pn_atoms \<Rightarrow> 8 word \<Rightarrow> decode_result"
  and decode_compound_elements ::
      "nat \<Rightarrow> nat \<Rightarrow> memory \<Rightarrow> pn_bytes \<Rightarrow> pn_atoms \<Rightarrow> decode_result"
where
  "pn_decode_type 0 mem bytes atoms = None"
| "pn_decode_type (Suc f) mem bytes atoms =
     (if size_b bytes = 0 then Some (Inl PN_UNDERFLOW, bytes, atoms)
      else if size_a atoms = 0 then Some (Inl PN_OVERFLOW, bytes, atoms)
      else if mem (start_b bytes) \<noteq> PNE_DESCRIPTOR then
        Some (Inr (mem (start_b bytes)), pn_bytes_ltrim bytes 1, atoms)
      else
        (case pn_decode_atom f mem (pn_bytes_ltrim bytes 1) (atoms_put atoms A_DESCRIPTOR) of
           None \<Rightarrow> None
         | Some (Some e, bytes1, atoms1) \<Rightarrow> Some (Inl e, bytes1, atoms1)
         | Some (None, bytes1, atoms1) \<Rightarrow> pn_decode_type f mem bytes1 atoms1))"
| "pn_decode_value 0 mem bytes atoms code = None"
| "pn_decode_value (Suc f) mem bytes atoms code =
     (case pn_decode_value_head mem bytes atoms code of
        Done e bytes1 atoms1 \<Rightarrow> Some (e, bytes1, atoms1)
      | Array_Body count bytes1 atoms1 \<Rightarrow>
          (case pn_decode_type f mem bytes1 atoms1 of
             None \<Rightarrow> None
           | Some (Inl e, bytes2, atoms2) \<Rightarrow> Some (Some e, bytes2, atoms2)
           | Some (Inr acode, bytes2, atoms2) \<Rightarrow>
               (case array_type_atom atoms2 acode of
                  Inl e \<Rightarrow> Some (Some e, bytes2, atoms2)
                | Inr atoms3 \<Rightarrow> decode_array_elements f count mem bytes2 atoms3 acode))
      | Compound_Body count bytes1 atoms1 \<Rightarrow> decode_compound_elements f count mem bytes1 atoms1)"
| "pn_decode_atom 0 mem bytes atoms = None"
| "pn_decode_atom (Suc f) mem bytes atoms =
     (case pn_decode_type f mem bytes atoms of
        None \<Rightarrow> None
      | Some (Inl e, bytes1, atoms1) \<Rightarrow> Some (Some e, bytes1, atoms1)
      | Some (Inr code, bytes1, atoms1) \<Rightarrow> pn_decode_value f mem bytes1 atoms1 code)"
| "decode_array_elements 0 count mem bytes atoms acode = None"
| "decode_array_elements (Suc f) count mem bytes atoms acode =
     (if count = 0 then Some (None, bytes, atoms)
      else case pn_decode_value f mem bytes atoms acode of
        None \<Rightarrow> None
      | Some (Some e, bytes1, atoms1) \<Rightarrow> Some (Some e, bytes1, atoms1)
      | Some (None, bytes1, atoms1) \<Rightarrow> decode_array_elements f (count - 1) mem bytes1 atoms1 acode)"
| "decode_compound_elements 0 count mem bytes atoms = None"
| "decode_compound_elements (Suc f) count mem bytes atoms =
     (if count = 0 then Some (None, bytes, atoms)
      else case pn_decode_atom f mem bytes atoms of
        None \<Rightarrow> None
      | Some (Some e, bytes1, atoms1) \<Rightarrow> Some (Some e, bytes1, atoms1)
      | Some (None, bytes1, atoms1) \<Rightarrow> decode_compound_elements f (count - 1) mem bytes1 atoms1)"
  by pat_completeness auto

termination
  by (relation "measure (case_sum (case_sum fst fst) (case_sum fst (case_sum fst fst)))") auto


text \<open>
  \<^verbatim>\<open>pn_decode_one\<close> works on copies of both cursors: on success the caller's
  \<^verbatim>\<open>bytes->size\<close> becomes the number of bytes consumed and \<^verbatim>\<open>atoms->size\<close> the number
  of atoms stored; on failure the caller's cursors are untouched. The result is the
  error, or the bytes consumed with the atoms stored.
\<close>

definition pn_decode_one ::
  "nat \<Rightarrow> memory \<Rightarrow> pn_bytes \<Rightarrow> nat \<Rightarrow> (pn_error + nat \<times> pn_iatom list) option" where
  "pn_decode_one fuel mem bytes asize =
     (case pn_decode_atom fuel mem bytes \<lparr>size_a = asize, out_a = []\<rparr> of
        None \<Rightarrow> None
      | Some (Some e, buf, dat) \<Rightarrow> Some (Inl e)
      | Some (None, buf, dat) \<Rightarrow> Some (Inr (size_b bytes - size_b buf, out_a dat)))"

subsection \<open>The value tree\<close>

text \<open>
  \<^verbatim>\<open>pn_node_t\<close>. The links are node ids: 0 is "none", id \<open>n\<close> is \<^verbatim>\<open>nodes[n - 1]\<close>.
  \<open>type_n\<close> is the element kind of an array; \<open>None\<close> is a value that is no member of
  \<^verbatim>\<open>pn_type_t\<close>: the 0 that codec.c's own callers pass to \<^verbatim>\<open>pn_data_put_array\<close>, or the
  \<^verbatim>\<open>(pn_type_t) PN_ARG_ERR\<close> of a decoded array with an unknown element code. The code
  modelled here treats every such value alike (the default case of \<^verbatim>\<open>pn_type2code\<close>).
  \<open>start_n\<close> is the address of the size slot reserved by the encoder.
\<close>

record pn_node =
  next_n :: nat
  prev_n :: nat
  down_n :: nat
  parent_n :: nat
  children_n :: nat
  atom_n :: pn_iatom
  described_n :: bool
  type_n :: "pn_type option"
  data_n :: bool
  data_offset_n :: nat
  data_size_n :: nat
  start_n :: nat
  small_n :: bool

text \<open>
  \<^verbatim>\<open>struct pn_data_t\<close>. \<open>nodes\<close> is the allocated array, of \<open>capacity\<close> entries, of which
  the first \<open>size_d\<close> are in use; the others keep whatever was last stored in them.
  \<open>error_d\<close> is the last code and message given to the error sink.

  Modelled from the spec: buffer.c and error.c are not part of the sources. The interned
  store \<open>buf\<close> is the append-only byte buffer of the specification, modelled without
  allocation failure; the error sink records \<open>(code, message)\<close> and
  \<^verbatim>\<open>pn_error_format\<close> returns the code.
\<close>

record pn_data =
  capacity :: nat
  size_d :: nat
  nodes :: "pn_node list"
  buf :: "8 word list"
  parent :: nat
  current :: nat
  base_parent :: nat
  base_current :: nat
  extras :: nat
  error_d :: "(pn_error \<times> string) option"

record pn_point =
  parent_p :: nat
  current_p :: nat

text \<open>The contents of a freshly allocated node: indeterminate in C, fixed here.\<close>

definition fresh_node :: pn_node where
  "fresh_node = \<lparr>next_n = 0, prev_n = 0, down_n = 0, parent_n = 0, children_n = 0,
                 atom_n = A_NULL, described_n = False, type_n = None, data_n = False,
                 data_offset_n = 0, data_size_n = 0, start_n = 0, small_n = False\<rparr>"

definition pn_data :: "nat \<Rightarrow> pn_data" where
  "pn_data cap = \<lparr>capacity = cap, size_d = 0, nodes = replicate cap fresh_node, buf = [],
                  parent = 0, current = 0, base_parent = 0, base_current = 0, extras = 0,
                  error_d = None\<rparr>"

definition pn_error_format :: "pn_data \<Rightarrow> pn_error \<Rightarrow> string \<Rightarrow> pn_data" where
  "pn_error_format d code msg = d\<lparr>error_d := Some (code, msg)\<rparr>"

definition pn_data_size :: "pn_data \<Rightarrow> nat" where
  "pn_data_size d = size_d d"

definition pn_data_clear :: "pn_data \<Rightarrow> pn_data" where
  "pn_data_clear d = d\<lparr>size_d := 0, extras := 0, parent := 0, current := 0,
                        base_parent := 0, base_current := 0, buf := []\<rparr>"

definition pn_data_grow :: "pn_data \<Rightarrow> pn_data" where
  "pn_data_grow d =
     (let cap = 2 * (if capacity d \<noteq> 0 then capacity d else 16)
      in d\<lparr>capacity := cap, nodes := nodes d @ replicate (cap - length (nodes d)) fresh_node\<rparr>)"

text \<open>
  \<^verbatim>\<open>pn_data_node\<close>: \<open>None\<close> is the null pointer. There is no bounds check in C; the
  invariant \<open>tree_inv\<close> below keeps every id that is followed within the nodes in use.
\<close>

definition pn_data_node :: "pn_data \<Rightarrow> nat \<Rightarrow> pn_node option" where
  "pn_data_node d nd = (if nd \<noteq> 0 then Some (nodes d ! (nd - 1)) else None)"

text \<open>A store through a node pointer: \<^verbatim>\<open>pn_data_node(data, nd)->field = ...\<close>.\<close>

definition node_upd :: "pn_data \<Rightarrow> nat \<Rightarrow> (pn_node \<Rightarrow> pn_node) \<Rightarrow> pn_data" where
  "node_upd d nd f = d\<lparr>nodes := (nodes d)[nd - 1 := f (nodes d ! (nd - 1))]\<rparr>"

text \<open>\<^verbatim>\<open>pn_data_new\<close> returns the data with the id of the new node.\<close>

definition pn_data_new :: "pn_data \<Rightarrow> pn_data \<times> nat" where
  "pn_data_new d =
     (let d1 = (if capacity d \<le> size_d d then pn_data_grow d else d);
          nd = size_d d1 + 1;
          d2 = d1\<lparr>size_d := nd\<rparr>
      in (node_upd d2 nd (\<lambda>n. n\<lparr>next_n := 0, down_n := 0, children_n := 0\<rparr>), nd))"

definition pn_data_rewind :: "pn_data \<Rightarrow> pn_data" where
  "pn_data_rewind d = d\<lparr>parent := base_parent d, current := base_current d\<rparr>"

definition pn_data_current :: "pn_data \<Rightarrow> pn_node option" where
  "pn_data_current d = pn_data_node d (current d)"

definition pn_data_narrow :: "pn_data \<Rightarrow> pn_data" where
  "pn_data_narrow d = d\<lparr>base_parent := parent d, base_current := current d\<rparr>"

definition pn_data_widen :: "pn_data \<Rightarrow> pn_data" where
  "pn_data_widen d = d\<lparr>base_parent := 0, base_current := 0\<rparr>"

definition pn_data_point :: "pn_data \<Rightarrow> pn_point" where
  "pn_data_point d = \<lparr>parent_p = parent d, current_p = current d\<rparr>"

definition pn_data_restore :: "pn_data \<Rightarrow> pn_point \<Rightarrow> bool \<times> pn_data" where
  "pn_data_restore d point =
     (if current_p point \<noteq> 0 \<and> current_p point \<le> size_d d then
        (True, d\<lparr>current := current_p point,
                 parent := parent_n (nodes d ! (current_p point - 1))\<rparr>)
      else if parent_p point \<noteq> 0 \<and> parent_p point \<le> size_d d then
        (True, d\<lparr>parent := parent_p point, current := 0\<rparr>)
      else (False, d))"

definition pn_data_peek :: "pn_data \<Rightarrow> pn_node option" where
  "pn_data_peek d =
     (case pn_data_current d of
        Some cur \<Rightarrow> pn_data_node d (next_n cur)
      | None \<Rightarrow>
          (case pn_data_node d (parent d) of
             Some par \<Rightarrow> pn_data_node d (down_n par)
           | None \<Rightarrow> None))"

definition pn_data_next :: "pn_data \<Rightarrow> bool \<times> pn_data" where
  "pn_data_next d =
     (case (case pn_data_current d of
              Some cur \<Rightarrow> Some (next_n cur)
            | None \<Rightarrow>
                (case pn_data_node d (parent d) of
                   Some par \<Rightarrow> if down_n par \<noteq> 0 then Some (down_n par) else None
                 | None \<Rightarrow> if size_d d \<noteq> 0 then Some 1 else None)) of
        None \<Rightarrow> (False, d)
      | Some nxt \<Rightarrow> if nxt \<noteq> 0 then (True, d\<lparr>current := nxt\<rparr>) else (False, d))"

definition pn_data_prev :: "pn_data \<Rightarrow> bool \<times> pn_data" where
  "pn_data_prev d =
     (case pn_data_current d of
        Some node \<Rightarrow> if prev_n node \<noteq> 0 then (True, d\<lparr>current := prev_n node\<rparr>) else (False, d)
      | None \<Rightarrow> (False, d))"

text \<open>\<^verbatim>\<open>pn_data_type\<close>: \<open>None\<close> is the \<^verbatim>\<open>(pn_type_t) -1\<close> of "no current node".\<close>

definition pn_data_type :: "pn_data \<Rightarrow> pn_type option" where
  "pn_data_type d =
     (case pn_data_current d of Some node \<Rightarrow> Some (atom_type (atom_n node)) | None \<Rightarrow> None)"

definition pn_data_enter :: "pn_data \<Rightarrow> bool \<times> pn_data" where
  "pn_data_enter d =
     (if current d \<noteq> 0 then (True, d\<lparr>parent := current d, current := 0\<rparr>) else (False, d))"

definition pn_data_exit :: "pn_data \<Rightarrow> bool \<times> pn_data" where
  "pn_data_exit d =
     (if parent d \<noteq> 0 then
        (True, d\<lparr>current := parent d, parent := parent_n (nodes d ! (parent d - 1))\<rparr>)
      else (False, d))"

text \<open>
  \<^verbatim>\<open>pn_data_add\<close>: the node returned is the new current node. The first part chooses
  or allocates the node, the second resets it.
\<close>

definition pn_data_add_node :: "pn_data \<Rightarrow> pn_data \<times> nat" where
  "pn_data_add_node d =
     (case pn_data_current d of
        Some cur \<Rightarrow>
          if next_n cur \<noteq> 0 then (d, next_n cur)
          else
            (let (d1, nd) = pn_data_new d;
                 d2 = node_upd d1 nd (\<lambda>n. n\<lparr>prev_n := current d1\<rparr>);
                 d3 = node_upd d2 (current d2) (\<lambda>n. n\<lparr>next_n := nd\<rparr>);
                 d4 = node_upd d3 nd (\<lambda>n. n\<lparr>parent_n := parent d3\<rparr>)
             in if parent d4 \<noteq> 0 then
                  (node_upd d4 (parent d4)
                     (\<lambda>p. (if down_n p = 0 then p\<lparr>down_n := nd\<rparr> else p)
                             \<lparr>children_n := children_n p + 1\<rparr>), nd)
                else (d4, nd))
      | None \<Rightarrow>
          (case pn_data_node d (parent d) of
             Some par \<Rightarrow>
               if down_n par \<noteq> 0 then (d, down_n par)
               else
                 (let (d1, nd) = pn_data_new d;
                      d2 = node_upd d1 nd (\<lambda>n. n\<lparr>prev_n := 0, parent_n := parent d1\<rparr>)
                  in (node_upd d2 (parent d2)
                        (\<lambda>p. p\<lparr>down_n := nd, children_n := children_n p + 1\<rparr>), nd))
           | None \<Rightarrow>
               if size_d d \<noteq> 0 then (d, 1)
               else
                 (let (d1, nd) = pn_data_new d
                  in (node_upd d1 nd (\<lambda>n. n\<lparr>prev_n := 0, parent_n := 0\<rparr>), nd))))"

definition pn_data_add :: "pn_data \<Rightarrow> pn_data" where
  "pn_data_add d =
     (let (d1, nd) = pn_data_add_node d;
          d2 = node_upd d1 nd
                 (\<lambda>n. n\<lparr>down_n := 0, children_n := 0, data_n := False,
                         data_offset_n := 0, data_size_n := 0\<rparr>)
      in d2\<lparr>current := nd\<rparr>)"

text \<open>
  The \<^verbatim>\<open>put\<close> operations: \<^verbatim>\<open>pn_data_add\<close>, then the atom is stored in the node
  returned. Without allocation failure each of them returns 0, so the model returns the
  new tree only.
\<close>

definition put_atom :: "pn_data \<Rightarrow> pn_iatom \<Rightarrow> pn_data" where
  "put_atom d a = (let d1 = pn_data_add d in node_upd d1 (current d1) (\<lambda>n. n\<lparr>atom_n := a\<rparr>))"

text \<open>
  \<^verbatim>\<open>pn_data_intern_node\<close> for a node holding a byte span: the span is appended to the
  interned store and the node records where. The atom keeps the same contents (its
  pointer is rebased into the store).
\<close>

definition pn_data_intern_node :: "pn_data \<Rightarrow> nat \<Rightarrow> 8 word list \<Rightarrow> pn_data" where
  "pn_data_intern_node d nd bytes =
     (let offset = length (buf d);
          d1 = d\<lparr>buf := buf d @ bytes\<rparr>
      in node_upd d1 nd
           (\<lambda>n. n\<lparr>data_n := True, data_offset_n := offset, data_size_n := length bytes\<rparr>))"

definition pn_data_put_list :: "pn_data \<Rightarrow> pn_data" where
  "pn_data_put_list d = put_atom d (A_LIST 0)"

definition pn_data_put_map :: "pn_data \<Rightarrow> pn_data" where
  "pn_data_put_map d = put_atom d (A_MAP 0)"

definition pn_data_put_array :: "pn_data \<Rightarrow> bool \<Rightarrow> pn_type option \<Rightarrow> pn_data" where
  "pn_data_put_array d described type =
     (let d1 = put_atom d (A_ARRAY 0);
          d2 = node_upd d1 (current d1) (\<lambda>n. n\<lparr>described_n := described, type_n := type\<rparr>)
      in d2\<lparr>extras := extras d2 + 2\<rparr>)"

definition pn_data_put_described :: "pn_data \<Rightarrow> pn_data" where
  "pn_data_put_described d = put_atom d A_DESCRIPTOR"

definition pn_data_put_null :: "pn_data \<Rightarrow> pn_data" where
  "pn_data_put_null d = put_atom d A_NULL"

definition pn_data_put_bool :: "pn_data \<Rightarrow> bool \<Rightarrow> pn_data" where
  "pn_data_put_bool d b = put_atom d (A_BOOL b)"

definition pn_data_put_ubyte :: "pn_data \<Rightarrow> 8 word \<Rightarrow> pn_data" where
  "pn_data_put_ubyte d ub = put_atom d (A_UBYTE ub)"

definition pn_data_put_byte :: "pn_data \<Rightarrow> 8 word \<Rightarrow> pn_data" where
  "pn_data_put_byte d b = put_atom d (A_BYTE b)"

definition pn_data_put_ushort :: "pn_data \<Rightarrow> 16 word \<Rightarrow> pn_data" where
  "pn_data_put_ushort d us = put_atom d (A_USHORT us)"

definition pn_data_put_short :: "pn_data \<Rightarrow> 16 word \<Rightarrow> pn_data" where
  "pn_data_put_short d s = put_atom d (A_SHORT s)"

definition pn_data_put_uint :: "pn_data \<Rightarrow> 32 word \<Rightarrow> pn_data" where
  "pn_data_put_uint d ui = put_atom d (A_UINT ui)"

definition pn_data_put_int :: "pn_data \<Rightarrow> 32 word \<Rightarrow> pn_data" where
  "pn_data_put_int d i = put_atom d (A_INT i)"

definition pn_data_put_char :: "pn_data \<Rightarrow> 32 word \<Rightarrow> pn_data" where
  "pn_data_put_char d c = put_atom d (A_CHAR c)"

definition pn_data_put_ulong :: "pn_data \<Rightarrow> 64 word \<Rightarrow> pn_data" where
  "pn_data_put_ulong d ul = put_atom d (A_ULONG ul)"

definition pn_data_put_long :: "pn_data \<Rightarrow> 64 word \<Rightarrow> pn_data" where
  "pn_data_put_long d l = put_atom d (A_LONG l)"

definition pn_data_put_timestamp :: "pn_data \<Rightarrow> 64 word \<Rightarrow> pn_data" where
  "pn_data_put_timestamp d t = put_atom d (A_TIMESTAMP t)"

definition pn_data_put_float :: "pn_data \<Rightarrow> 32 word \<Rightarrow> pn_data" where
  "pn_data_put_float d f = put_atom d (A_FLOAT f)"

definition pn_data_put_double :: "pn_data \<Rightarrow> 64 word \<Rightarrow> pn_data" where
  "pn_data_put_double d v = put_atom d (A_DOUBLE v)"

definition pn_data_put_decimal32 :: "pn_data \<Rightarrow> 32 word \<Rightarrow> pn_data" where
  "pn_data_put_decimal32 d v = put_atom d (A_DECIMAL32 v)"

definition pn_data_put_decimal64 :: "pn_data \<Rightarrow> 64 word \<Rightarrow> pn_data" where
  "pn_data_put_decimal64 d v = put_atom d (A_DECIMAL64 v)"

definition pn_data_put_decimal128 :: "pn_data \<Rightarrow> 8 word list \<Rightarrow> pn_data" where
  "pn_data_put_decimal128 d v = put_atom d (A_DECIMAL128 (take 16 v))"

definition pn_data_put_uuid :: "pn_data \<Rightarrow> 8 word list \<Rightarrow> pn_data" where
  "pn_data_put_uuid d u = put_atom d (A_UUID (take 16 u))"

definition pn_data_put_binary :: "pn_data \<Rightarrow> 8 word list \<Rightarrow> pn_data" where
  "pn_data_put_binary d bytes =
     (let d1 = put_atom d (A_BINARY bytes) in pn_data_intern_node d1 (current d1) bytes)"

definition pn_data_put_string :: "pn_data \<Rightarrow> 8 word list \<Rightarrow> pn_data" where
  "pn_data_put_string d string =
     (let d1 = put_atom d (A_STRING string) in pn_data_intern_node d1 (current d1) string)"

definition pn_data_put_symbol :: "pn_data \<Rightarrow> 8 word list \<Rightarrow> pn_data" where
  "pn_data_put_symbol d symbol =
     (let d1 = put_atom d (A_SYMBOL symbol) in pn_data_intern_node d1 (current d1) symbol)"

subsection \<open>Accessors\<close>

text \<open>
  \<^verbatim>\<open>pn_data_get_bool\<close> to \<^verbatim>\<open>pn_data_get_symbol\<close>: the member of the union when there is
  a current node and its tag is the accessor's kind, the zero of the kind otherwise
  (\<^verbatim>\<open>false\<close>, \<^verbatim>\<open>0\<close>, the float \<^verbatim>\<open>0\<close> whose bits are 0, \<^verbatim>\<open>{{0}}\<close>, the span
  \<^verbatim>\<open>{0}\<close> of size 0). They take the tree and write nothing to it, so the model returns
  the value alone.
\<close>

definition pn_data_get_bool :: "pn_data \<Rightarrow> bool" where
  "pn_data_get_bool d =
     (case pn_data_current d of
        Some node \<Rightarrow> (case atom_n node of A_BOOL v \<Rightarrow> v | _ \<Rightarrow> False)
      | None \<Rightarrow> False)"

definition pn_data_get_ubyte :: "pn_data \<Rightarrow> 8 word" where
  "pn_data_get_ubyte d =
     (case pn_data_current d of
        Some node \<Rightarrow> (case atom_n node of A_UBYTE v \<Rightarrow> v | _ \<Rightarrow> 0)
      | None \<Rightarrow> 0)"

definition pn_data_get_byte :: "pn_data \<Rightarrow> 8 word" where
  "pn_data_get_byte d =
     (case pn_data_current d of
        Some node \<Rightarrow> (case atom_n node of A_BYTE v \<Rightarrow> v | _ \<Rightarrow> 0)
      | None \<Rightarrow> 0)"

definition pn_data_get_ushort :: "pn_data \<Rightarrow> 16 word" where
  "pn_data_get_ushort d =
     (case pn_data_current d of
        Some node \<Rightarrow> (case atom_n node of A_USHORT v \<Rightarrow> v | _ \<Rightarrow> 0)
      | None \<Rightarrow> 0)"

definition pn_data_get_short :: "pn_data \<Rightarrow> 16 word" where
  "pn_data_get_short d =
     (case pn_data_current d of
        Some node \<Rightarrow> (case atom_n node of A_SHORT v \<Rightarrow> v | _ \<Rightarrow> 0)
      | None \<Rightarrow> 0)"

definition pn_data_get_uint :: "pn_data \<Rightarrow> 32 word" where
  "pn_data_get_uint d =
     (case pn_data_current d of
        Some node \<Rightarrow> (case atom_n node of A_UINT v \<Rightarrow> v | _ \<Rightarrow> 0)
      | None \<Rightarrow> 0)"

definition pn_data_get_int :: "pn_data \<Rightarrow> 32 word" where
  "pn_data_get_int d =
     (case pn_data_current d of
        Some node \<Rightarrow> (case atom_n node of A_INT v \<Rightarrow> v | _ \<Rightarrow> 0)
      | None \<Rightarrow> 0)"

definition pn_data_get_char :: "pn_data \<Rightarrow> 32 word" where
  "pn_data_get_char d =
     (case pn_data_current d of
        Some node \<Rightarrow> (case atom_n node of A_CHAR v \<Rightarrow> v | _ \<Rightarrow> 0)
      | None \<Rightarrow> 0)"

definition pn_data_get_ulong :: "pn_data \<Rightarrow> 64 word" where
  "pn_data_get_ulong d =
     (case pn_data_current d of
        Some node \<Rightarrow> (case atom_n node of A_ULONG v \<Rightarrow> v | _ \<Rightarrow> 0)
      | None \<Rightarrow> 0)"

definition pn_data_get_long :: "pn_data \<Rightarrow> 64 word" where
  "pn_data_get_long d =
     (case pn_data_current d of
        Some node \<Rightarrow> (case atom_n node of A_LONG v \<Rightarrow> v | _ \<Rightarrow> 0)
      | None \<Rightarrow> 0)"

definition pn_data_get_timestamp :: "pn_data \<Rightarrow> 64 word" where
  "pn_data_get_timestamp d =
     (case pn_data_current d of
        Some node \<Rightarrow> (case atom_n node of A_TIMESTAMP v \<Rightarrow> v | _ \<Rightarrow> 0)
      | None \<Rightarrow> 0)"

definition pn_data_get_float :: "pn_data \<Rightarrow> 32 word" where
  "pn_data_get_float d =
     (case pn_data_current d of
        Some node \<Rightarrow> (case atom_n node of A_FLOAT v \<Rightarrow> v | _ \<Rightarrow> 0)
      | None \<Rightarrow> 0)"

definition pn_data_get_double :: "pn_data \<Rightarrow> 64 word" where
  "pn_data_get_double d =
     (case pn_data_current d of
        Some node \<Rightarrow> (case atom_n node of A_DOUBLE v \<Rightarrow> v | _ \<Rightarrow> 0)
      | None \<Rightarrow> 0)"

definition pn_data_get_decimal32 :: "pn_data \<Rightarrow> 32 word" where
  "pn_data_get_decimal32 d =
     (case pn_data_current d of
        Some node \<Rightarrow> (case atom_n node of A_DECIMAL32 v \<Rightarrow> v | _ \<Rightarrow> 0)
      | None \<Rightarrow> 0)"

definition pn_data_get_decimal64 :: "pn_data \<Rightarrow> 64 word" where
  "pn_data_get_decimal64 d =
     (case pn_data_current d of
        Some node \<Rightarrow> (case atom_n node of A_DECIMAL64 v \<Rightarrow> v | _ \<Rightarrow> 0)
      | None \<Rightarrow> 0)"

definition pn_data_get_decimal128 :: "pn_data \<Rightarrow> 8 word list" where
  "pn_data_get_decimal128 d =
     (case pn_data_current d of
        Some node \<Rightarrow> (case atom_n node of A_DECIMAL128 v \<Rightarrow> v | _ \<Rightarrow> replicate 16 0)
      | None \<Rightarrow> replicate 16 0)"

definition pn_data_get_uuid :: "pn_data \<Rightarrow> 8 word list" where
  "pn_data_get_uuid d =
     (case pn_data_current d of
        Some node \<Rightarrow> (case atom_n node of A_UUID v \<Rightarrow> v | _ \<Rightarrow> replicate 16 0)
      | None \<Rightarrow> replicate 16 0)"

definition pn_data_get_binary :: "pn_data \<Rightarrow> 8 word list" where
  "pn_data_get_binary d =
     (case pn_data_current d of
        Some node \<Rightarrow> (case atom_n node of A_BINARY v \<Rightarrow> v | _ \<Rightarrow> [])
      | None \<Rightarrow> [])"

definition pn_data_get_string :: "pn_data \<Rightarrow> 8 word list" where
  "pn_data_get_string d =
     (case pn_data_current d of
        Some node \<Rightarrow> (case atom_n node of A_STRING v \<Rightarrow> v | _ \<Rightarrow> [])
      | None \<Rightarrow> [])"

definition pn_data_get_symbol :: "pn_data \<Rightarrow> 8 word list" where
  "pn_data_get_symbol d =
     (case pn_data_current d of
        Some node \<Rightarrow> (case atom_n node of A_SYMBOL v \<Rightarrow> v | _ \<Rightarrow> [])
      | None \<Rightarrow> [])"

definition pn_data_get_list :: "pn_data \<Rightarrow> nat" where
  "pn_data_get_list d =
     (case pn_data_current d of
        Some node \<Rightarrow> if atom_type (atom_n node) = PN_LIST then children_n node else 0
      | None \<Rightarrow> 0)"

definition pn_data_get_map :: "pn_data \<Rightarrow> nat" where
  "pn_data_get_map d =
     (case pn_data_current d of
        Some node \<Rightarrow> if atom_type (atom_n node) = PN_MAP then children_n node else 0
      | None \<Rightarrow> 0)"

definition pn_data_is_array_described :: "pn_data \<Rightarrow> bool" where
  "pn_data_is_array_described d =
     (case pn_data_current d of
        Some node \<Rightarrow> if atom_type (atom_n node) = PN_ARRAY then described_n node else False
      | None \<Rightarrow> False)"

text \<open>\<open>None\<close> is both the \<^verbatim>\<open>(pn_type_t) -1\<close> of "not an array" and an unset element kind.\<close>

definition pn_data_get_array_type :: "pn_data \<Rightarrow> pn_type option" where
  "pn_data_get_array_type d =
     (case pn_data_current d of
        Some node \<Rightarrow> if atom_type (atom_n node) = PN_ARRAY then type_n node else None
      | None \<Rightarrow> None)"

subsection \<open>Atom codec: encoding\<close>

text \<open>\<^verbatim>\<open>pn_type2code\<close>; the default case calls \<^verbatim>\<open>pn_fatal\<close>.\<close>

fun pn_type2code :: "pn_type option \<Rightarrow> pn_error + 8 word" where
  "pn_type2code (Some PN_NULL) = Inr PNE_NULL"
| "pn_type2code (Some PN_BOOL) = Inr PNE_BOOLEAN"
| "pn_type2code (Some PN_UBYTE) = Inr PNE_UBYTE"
| "pn_type2code (Some PN_BYTE) = Inr PNE_BYTE"
| "pn_type2code (Some PN_USHORT) = Inr PNE_USHORT"
| "pn_type2code (Some PN_SHORT) = Inr PNE_SHORT"
| "pn_type2code (Some PN_UINT) = Inr PNE_UINT"
| "pn_type2code (Some PN_INT) = Inr PNE_INT"
| "pn_type2code (Some PN_CHAR) = Inr PNE_UTF32"
| "pn_type2code (Some PN_FLOAT) = Inr PNE_FLOAT"
| "pn_type2code (Some PN_LONG) = Inr PNE_LONG"
| "pn_type2code (Some PN_TIMESTAMP) = Inr PNE_MS64"
| "pn_type2code (Some PN_DOUBLE) = Inr PNE_DOUBLE"
| "pn_type2code (Some PN_DECIMAL32) = Inr PNE_DECIMAL32"
| "pn_type2code (Some PN_DECIMAL64) = Inr PNE_DECIMAL64"
| "pn_type2code (Some PN_DECIMAL128) = Inr PNE_DECIMAL128"
| "pn_type2code (Some PN_UUID) = Inr PNE_UUID"
| "pn_type2code (Some PN_ULONG) = Inr PNE_ULONG"
| "pn_type2code (Some PN_BINARY) = Inr PNE_VBIN32"
| "pn_type2code (Some PN_STRING) = Inr PNE_STR32_UTF8"
| "pn_type2code (Some PN_SYMBOL) = Inr PNE_SYM32"
| "pn_type2code (Some PN_LIST) = Inr PNE_LIST32"
| "pn_type2code (Some PN_ARRAY) = Inr PNE_ARRAY32"
| "pn_type2code (Some PN_MAP) = Inr PNE_MAP32"
| "pn_type2code (Some PN_DESCRIPTOR) = Inr PNE_DESCRIPTOR"
| "pn_type2code (Some PN_TYPE) = Inl PN_FATAL"
| "pn_type2code None = Inl PN_FATAL"


text \<open>
  The switch of \<^verbatim>\<open>pn_data_encode_node\<close> reads the member of the union \<^verbatim>\<open>u\<close> that
  belongs to the code, not the member that belongs to the atom's own tag; for an element
  of an array the two differ when the element is not of the array's kind (the code then
  comes from \<^verbatim>\<open>parent->type\<close>). All members start at the first byte of the union, so
  such a read yields the bytes that the last store left there. \<open>union_stored\<close> gives the
  bytes that the store of an atom defines, from the first byte of the union, for a
  little-endian target with an 8-byte \<^verbatim>\<open>size_t\<close>: the value of a scalar at its width, the
  16 bytes of a block, the \<^verbatim>\<open>size\<close> of a byte span (its \<^verbatim>\<open>start\<close> pointer follows, and has
  no value in this model), the \<^verbatim>\<open>count\<close> of a composite (the 0 that \<^verbatim>\<open>pn_data_put_list\<close>,
  \<^verbatim>\<open>pn_data_put_map\<close> and \<^verbatim>\<open>pn_data_put_array\<close> store); \<^verbatim>\<open>pn_data_put_described\<close> and
  \<^verbatim>\<open>pn_data_put_null\<close> name no member.
\<close>

fun le_bytes :: "nat \<Rightarrow> 'a::len word \<Rightarrow> 8 word list" where
  "le_bytes 0 v = []"
| "le_bytes (Suc n) v = ucast v # le_bytes n (drop_bit 8 v)"

fun le_word :: "8 word list \<Rightarrow> 'a::len word" where
  "le_word [] = 0"
| "le_word (b # bs) = ucast b OR push_bit 8 (le_word bs)"

fun union_stored :: "pn_iatom \<Rightarrow> 8 word list" where
  "union_stored (A_BOOL v) = [if v then 1 else 0]"
| "union_stored (A_UBYTE v) = [v]"
| "union_stored (A_BYTE v) = [v]"
| "union_stored (A_USHORT v) = le_bytes 2 v"
| "union_stored (A_SHORT v) = le_bytes 2 v"
| "union_stored (A_UINT v) = le_bytes 4 v"
| "union_stored (A_INT v) = le_bytes 4 v"
| "union_stored (A_CHAR v) = le_bytes 4 v"
| "union_stored (A_ULONG v) = le_bytes 8 v"
| "union_stored (A_LONG v) = le_bytes 8 v"
| "union_stored (A_TIMESTAMP v) = le_bytes 8 v"
| "union_stored (A_FLOAT v) = le_bytes 4 v"
| "union_stored (A_DOUBLE v) = le_bytes 8 v"
| "union_stored (A_DECIMAL32 v) = le_bytes 4 v"
| "union_stored (A_DECIMAL64 v) = le_bytes 8 v"
| "union_stored (A_DECIMAL128 v) = take 16 v"
| "union_stored (A_UUID v) = take 16 v"
| "union_stored (A_BINARY v) = le_bytes 8 (of_nat (length v) :: 64 word)"
| "union_stored (A_STRING v) = le_bytes 8 (of_nat (length v) :: 64 word)"
| "union_stored (A_SYMBOL v) = le_bytes 8 (of_nat (length v) :: 64 word)"
| "union_stored (A_ARRAY n) = le_bytes 8 (of_nat n :: 64 word)"
| "union_stored (A_LIST n) = le_bytes 8 (of_nat n :: 64 word)"
| "union_stored (A_MAP n) = le_bytes 8 (of_nat n :: 64 word)"
| "union_stored A_NULL = []"
| "union_stored A_DESCRIPTOR = []"
| "union_stored (A_TYPE t) = []"

text \<open>
  The first \<open>w\<close> bytes of the union of a node that holds the atom \<open>a\<close>. The bytes after
  those that the store of \<open>a\<close> defined are whatever the 16 bytes of the union held before
  that store: \<open>stale\<close>, a parameter of the encoder, since no operation of the program
  determines them (the node array comes from \<^verbatim>\<open>realloc\<close>).
\<close>

definition union_read :: "pn_iatom \<Rightarrow> 8 word list \<Rightarrow> nat \<Rightarrow> 8 word list" where
  "union_read a stale w = take w (union_stored a @ drop (length (union_stored a)) stale)"







subsection \<open>The decode walk\<close>

text \<open>The \<^verbatim>\<open>put\<close> call that \<^verbatim>\<open>pn_data_parse_atoms\<close> makes for a leaf atom.\<close>

fun put_leaf :: "pn_data \<Rightarrow> pn_iatom \<Rightarrow> pn_data" where
  "put_leaf d A_NULL = pn_data_put_null d"
| "put_leaf d (A_BOOL v) = pn_data_put_bool d v"
| "put_leaf d (A_UBYTE v) = pn_data_put_ubyte d v"
| "put_leaf d (A_BYTE v) = pn_data_put_byte d v"
| "put_leaf d (A_USHORT v) = pn_data_put_ushort d v"
| "put_leaf d (A_SHORT v) = pn_data_put_short d v"
| "put_leaf d (A_UINT v) = pn_data_put_uint d v"
| "put_leaf d (A_INT v) = pn_data_put_int d v"
| "put_leaf d (A_CHAR v) = pn_data_put_char d v"
| "put_leaf d (A_ULONG v) = pn_data_put_ulong d v"
| "put_leaf d (A_LONG v) = pn_data_put_long d v"
| "put_leaf d (A_TIMESTAMP v) = pn_data_put_timestamp d v"
| "put_leaf d (A_FLOAT v) = pn_data_put_float d v"
| "put_leaf d (A_DOUBLE v) = pn_data_put_double d v"
| "put_leaf d (A_DECIMAL32 v) = pn_data_put_decimal32 d v"
| "put_leaf d (A_DECIMAL64 v) = pn_data_put_decimal64 d v"
| "put_leaf d (A_DECIMAL128 v) = pn_data_put_decimal128 d v"
| "put_leaf d (A_UUID v) = pn_data_put_uuid d v"
| "put_leaf d (A_BINARY v) = pn_data_put_binary d v"
| "put_leaf d (A_STRING v) = pn_data_put_string d v"
| "put_leaf d (A_SYMBOL v) = pn_data_put_symbol d v"
| "put_leaf d _ = d"

fun atom_count :: "pn_iatom \<Rightarrow> nat" where
  "atom_count (A_ARRAY n) = n"
| "atom_count (A_LIST n) = n"
| "atom_count (A_MAP n) = n"
| "atom_count _ = 0"

text \<open>A \<^verbatim>\<open>size_t\<close> count passed for the \<^verbatim>\<open>int limit\<close> parameter.\<close>

definition count_as_limit :: "nat \<Rightarrow> int" where
  "count_as_limit n = sint (of_nat n :: 32 word)"

text \<open>
  \<^verbatim>\<open>pn_data_parse_atoms\<close>: the \<^verbatim>\<open>for\<close> loop from index \<open>i\<close> with \<open>count\<close> values built
  so far; a call of the function is the loop at \<open>i = offset\<close>, \<open>count = 0\<close>. The result
  is the error or \<open>i - offset\<close>. The first argument is fuel. A read of \<^verbatim>\<open>atoms.start[i+1]\<close>
  past the atoms is \<open>PN_FATAL\<close>. The array's element kind is stored through the id of
  the array node (the C keeps a pointer taken before the descriptor is parsed).
\<close>

function parse_atoms_loop ::
  "nat \<Rightarrow> pn_data \<Rightarrow> pn_iatom list \<Rightarrow> nat \<Rightarrow> int \<Rightarrow> nat \<Rightarrow> int \<Rightarrow> ((pn_error + nat) \<times> pn_data) option" where
  "parse_atoms_loop 0 d atoms offset limit i count = None"
| "parse_atoms_loop (Suc f) d atoms offset limit i count =
     (if \<not> i < length atoms then Some (Inr (i - offset), d)
      else if count = limit then Some (Inr (i - offset), d)
      else
        (let atom = atoms ! i; ty = atom_type atom in
         if ty = PN_TYPE then Some (Inl PN_ERR, d)
         else if ty = PN_LIST \<or> ty = PN_MAP then
           (let d1 = (if ty = PN_LIST then pn_data_put_list d else pn_data_put_map d);
                d2 = snd (pn_data_enter d1)
            in case parse_atoms_loop f d2 atoms (i + 1) (count_as_limit (atom_count atom)) (i + 1) 0 of
                 None \<Rightarrow> None
               | Some (Inl e, d3) \<Rightarrow> Some (Inl e, d3)
               | Some (Inr step, d3) \<Rightarrow>
                   parse_atoms_loop f (snd (pn_data_exit d3)) atoms offset limit (i + step + 1) (count + 1))
         else if ty = PN_ARRAY then
           (if \<not> i + 1 < length atoms then Some (Inl PN_FATAL, d)
            else
              (let described = (atom_type (atoms ! (i + 1)) = PN_DESCRIPTOR);
                   d1 = pn_data_put_array d described None;
                   array = current d1;
                   d2 = snd (pn_data_enter d1)
               in case (if described then
                          (case parse_atoms_loop f d2 atoms (i + 2) 1 (i + 2) 0 of
                             None \<Rightarrow> None
                           | Some (Inl e, d3) \<Rightarrow> Some (Inl e, d3)
                           | Some (Inr step, d3) \<Rightarrow> Some (Inr (i + 1 + step), d3))
                        else Some (Inr i, d2)) of
                    None \<Rightarrow> None
                  | Some (Inl e, d3) \<Rightarrow> Some (Inl e, d3)
                  | Some (Inr i1, d3) \<Rightarrow>
                      if \<not> i1 + 1 < length atoms then Some (Inl PN_FATAL, d3)
                      else
                        (case atoms ! (i1 + 1) of
                           A_TYPE t \<Rightarrow>
                             (let d4 = node_upd d3 array (\<lambda>n. n\<lparr>type_n := t\<rparr>)
                              in case parse_atoms_loop f d4 atoms (i1 + 2)
                                        (count_as_limit (atom_count atom)) (i1 + 2) 0 of
                                   None \<Rightarrow> None
                                 | Some (Inl e, d5) \<Rightarrow> Some (Inl e, d5)
                                 | Some (Inr step, d5) \<Rightarrow>
                                     parse_atoms_loop f (snd (pn_data_exit d5)) atoms offset limit
                                       (i1 + 1 + step + 1) (count + 1))
                         | _ \<Rightarrow> Some (Inl PN_ERR, d3))))
         else if ty = PN_DESCRIPTOR then
           (let d1 = pn_data_put_described d;
                d2 = snd (pn_data_enter d1)
            in case parse_atoms_loop f d2 atoms (i + 1) 2 (i + 1) 0 of
                 None \<Rightarrow> None
               | Some (Inl e, d3) \<Rightarrow> Some (Inl e, d3)
               | Some (Inr step, d3) \<Rightarrow>
                   parse_atoms_loop f (snd (pn_data_exit d3)) atoms offset limit (i + step + 1) (count + 1))
         else parse_atoms_loop f (put_leaf d atom) atoms offset limit (i + 1) (count + 1)))"
  by pat_completeness auto
termination
  by (relation "measure fst") auto

definition pn_data_parse_atoms ::
  "nat \<Rightarrow> pn_data \<Rightarrow> pn_iatom list \<Rightarrow> nat \<Rightarrow> int \<Rightarrow> ((pn_error + nat) \<times> pn_data) option" where
  "pn_data_parse_atoms fuel d atoms offset limit = parse_atoms_loop fuel d atoms offset limit offset 0"

text \<open>
  \<^verbatim>\<open>pn_data_decode(data, bytes, size)\<close>: the \<^verbatim>\<open>while (true)\<close> that doubles the atom
  buffer, with \<open>retries\<close> iterations allowed (\<open>None\<close> when they are used up or the decoder's
  fuel is). The status of \<^verbatim>\<open>pn_data_parse_atoms\<close> is assigned to \<^verbatim>\<open>err\<close> and not read.
\<close>

fun pn_data_decode_loop ::
  "nat \<Rightarrow> nat \<Rightarrow> pn_data \<Rightarrow> memory \<Rightarrow> nat \<Rightarrow> nat \<Rightarrow> nat \<Rightarrow> ((pn_error + nat) \<times> pn_data) option" where
  "pn_data_decode_loop 0 fuel d mem bytes sz asize = None"
| "pn_data_decode_loop (Suc retries) fuel d mem bytes sz asize =
     (case pn_decode_one fuel mem \<lparr>size_b = sz, start_b = bytes\<rparr> asize of
        None \<Rightarrow> None
      | Some (Inr (consumed, atoms)) \<Rightarrow>
          (case pn_data_parse_atoms fuel d atoms 0 (- 1) of
             None \<Rightarrow> None
           | Some (err, d1) \<Rightarrow> Some (Inr consumed, d1))
      | Some (Inl e) \<Rightarrow>
          if e = PN_OVERFLOW then pn_data_decode_loop retries fuel d mem bytes sz (asize * 2)
          else Some (Inl e, d))"

definition pn_data_decode ::
  "nat \<Rightarrow> nat \<Rightarrow> pn_data \<Rightarrow> memory \<Rightarrow> nat \<Rightarrow> nat \<Rightarrow> ((pn_error + nat) \<times> pn_data) option" where
  "pn_data_decode retries fuel d mem bytes sz = pn_data_decode_loop retries fuel d mem bytes sz 64"

subsection \<open>Copying between trees\<close>

text \<open>The \<^verbatim>\<open>put(get(src))\<close> of \<^verbatim>\<open>pn_data_appendn\<close> for the leaf kinds.\<close>

definition append_leaf :: "pn_data \<Rightarrow> pn_data \<Rightarrow> pn_type \<Rightarrow> pn_data" where
  "append_leaf d src ty =
     (if ty = PN_NULL then pn_data_put_null d
      else if ty = PN_BOOL then pn_data_put_bool d (pn_data_get_bool src)
      else if ty = PN_UBYTE then pn_data_put_ubyte d (pn_data_get_ubyte src)
      else if ty = PN_BYTE then pn_data_put_byte d (pn_data_get_byte src)
      else if ty = PN_USHORT then pn_data_put_ushort d (pn_data_get_ushort src)
      else if ty = PN_SHORT then pn_data_put_short d (pn_data_get_short src)
      else if ty = PN_UINT then pn_data_put_uint d (pn_data_get_uint src)
      else if ty = PN_INT then pn_data_put_int d (pn_data_get_int src)
      else if ty = PN_CHAR then pn_data_put_char d (pn_data_get_char src)
      else if ty = PN_ULONG then pn_data_put_ulong d (pn_data_get_ulong src)
      else if ty = PN_LONG then pn_data_put_long d (pn_data_get_long src)
      else if ty = PN_TIMESTAMP then pn_data_put_timestamp d (pn_data_get_timestamp src)
      else if ty = PN_FLOAT then pn_data_put_float d (pn_data_get_float src)
      else if ty = PN_DOUBLE then pn_data_put_double d (pn_data_get_double src)
      else if ty = PN_DECIMAL32 then pn_data_put_decimal32 d (pn_data_get_decimal32 src)
      else if ty = PN_DECIMAL64 then pn_data_put_decimal64 d (pn_data_get_decimal64 src)
      else if ty = PN_DECIMAL128 then pn_data_put_decimal128 d (pn_data_get_decimal128 src)
      else if ty = PN_UUID then pn_data_put_uuid d (pn_data_get_uuid src)
      else if ty = PN_BINARY then pn_data_put_binary d (pn_data_get_binary src)
      else if ty = PN_STRING then pn_data_put_string d (pn_data_get_string src)
      else if ty = PN_SYMBOL then pn_data_put_symbol d (pn_data_get_symbol src)
      else d)"

text \<open>
  The outer \<^verbatim>\<open>while (true)\<close> of \<^verbatim>\<open>pn_data_appendn\<close>. Its inner \<^verbatim>\<open>while\<close> leaves at
  the end of its first iteration on both branches, so it is the conditional written here.
\<close>

fun appendn_loop ::
  "nat \<Rightarrow> pn_data \<Rightarrow> pn_data \<Rightarrow> int \<Rightarrow> int \<Rightarrow> int \<Rightarrow> (pn_data \<times> pn_data) option" where
  "appendn_loop 0 d src limit level count = None"
| "appendn_loop (Suc f) d src limit level count =
     (let (found, src1) = pn_data_next src;
          (stop, d2, src2, level2) =
             (if found then (False, d, src1, level)
              else
                (let (d1', src1', level') =
                       (if level > 0 then (snd (pn_data_exit d), snd (pn_data_exit src1), level - 1)
                        else (d, src1, level));
                     (found2, src2') = pn_data_next src1'
                 in (\<not> found2, d1', src2', level')))
      in if stop then Some (d2, src2)
         else if level2 = 0 \<and> count = limit then Some (d2, src2)
         else
           (case pn_data_type src2 of
              None \<Rightarrow> appendn_loop f d2 src2 limit level2 count
            | Some ty \<Rightarrow>
                (let count2 = (if level2 = 0 then count + 1 else count) in
                 if ty = PN_DESCRIPTOR \<or> ty = PN_ARRAY \<or> ty = PN_LIST \<or> ty = PN_MAP then
                   (let d3 = (if ty = PN_DESCRIPTOR then pn_data_put_described d2
                              else if ty = PN_ARRAY then
                                pn_data_put_array d2 (pn_data_is_array_described src2)
                                  (pn_data_get_array_type src2)
                              else if ty = PN_LIST then pn_data_put_list d2
                              else pn_data_put_map d2)
                    in appendn_loop f (snd (pn_data_enter d3)) (snd (pn_data_enter src2)) limit
                         (level2 + 1) count2)
                 else if ty = PN_TYPE then appendn_loop f d2 src2 limit level2 count
                 else appendn_loop f (append_leaf d2 src2 ty) src2 limit level2 count2)))"

text \<open>\<^verbatim>\<open>pn_data_appendn\<close> returns 0; the model returns both trees.\<close>

definition pn_data_appendn :: "nat \<Rightarrow> pn_data \<Rightarrow> pn_data \<Rightarrow> int \<Rightarrow> (pn_data \<times> pn_data) option" where
  "pn_data_appendn fuel d src limit =
     (let point = pn_data_point src in
      case appendn_loop fuel d (pn_data_rewind src) limit 0 0 of
        None \<Rightarrow> None
      | Some (d1, src1) \<Rightarrow> Some (d1, snd (pn_data_restore src1 point)))"

subsection \<open>The format interpreter: fill\<close>

text \<open>
  The variadic arguments, as the interpreter reads them with \<^verbatim>\<open>va_arg\<close>. A pointer to
  bytes is the contents it points to (\<open>None\<close> for the null pointer); an \<^verbatim>\<open>int\<close> that is
  cast to \<^verbatim>\<open>pn_type_t\<close> is given as the kind; a \<^verbatim>\<open>double\<close> that is narrowed to
  \<^verbatim>\<open>float\<close> is given as the bits of the float. An argument of another shape than the
  format character reads is \<open>PN_FATAL\<close> (undefined in C).
\<close>

datatype va_arg =
    VA_int int
  | VA_uint32 "32 word"
  | VA_uint64 "64 word"
  | VA_int64 "64 word"
  | VA_float "32 word"
  | VA_double "64 word"
  | VA_size nat
  | VA_ptr "8 word list option"
  | VA_strings "8 word list option list"
  | VA_type "pn_type option"
  | VA_data "pn_data option"

text \<open>\<^verbatim>\<open>strlen\<close>: the bytes before the first NUL.\<close>

definition strlen_bytes :: "8 word list \<Rightarrow> 8 word list" where
  "strlen_bytes cs = takeWhile (\<lambda>c. c \<noteq> 0) cs"

text \<open>
  The character of the format at an index; the terminating NUL at the end, and NUL also
  for the reads that the C makes outside the string (\<^verbatim>\<open>*(fmt - 2)\<close> at its first
  character, \<^verbatim>\<open>*(fmt + 1)\<close> at its last).
\<close>

definition fmt_at :: "string \<Rightarrow> int \<Rightarrow> char" where
  "fmt_at fmt i = (if 0 \<le> i \<and> nat i < length fmt then fmt ! nat i else CHR 0x00)"

text \<open>
  The loop that follows every element of \<^verbatim>\<open>pn_data_vfill\<close>:
  \<^verbatim>\<open>while (parent) { ... }\<close>. The first argument is fuel.
\<close>

fun fill_ascend :: "nat \<Rightarrow> pn_data \<Rightarrow> pn_data option" where
  "fill_ascend 0 d = None"
| "fill_ascend (Suc f) d =
     (case pn_data_node d (parent d) of
        None \<Rightarrow> Some d
      | Some par \<Rightarrow>
          if atom_type (atom_n par) = PN_DESCRIPTOR \<and> children_n par = 2 then
            fill_ascend f (snd (pn_data_exit d))
          else if atom_type (atom_n par) = PN_NULL \<and> children_n par = 1 then
            (let d1 = snd (pn_data_exit d);
                 d2 = node_upd d1 (current d1) (\<lambda>n. n\<lparr>down_n := 0, children_n := 0\<rparr>)
             in fill_ascend f d2)
          else Some d)"

text \<open>
  \<^verbatim>\<open>pn_data_fill(data, "s", sym)\<close>, the call made for each string of a \<^verbatim>\<open>*\<close> code:
  one iteration of the interpreter for the code \<open>s\<close>.
\<close>

definition fill_symbol :: "nat \<Rightarrow> pn_data \<Rightarrow> 8 word list option \<Rightarrow> pn_data option" where
  "fill_symbol fuel d str =
     fill_ascend fuel
       (case str of Some cs \<Rightarrow> pn_data_put_symbol d (strlen_bytes cs) | None \<Rightarrow> pn_data_put_null d)"

fun fill_symbols :: "nat \<Rightarrow> pn_data \<Rightarrow> 8 word list option list \<Rightarrow> pn_data option" where
  "fill_symbols fuel d [] = Some d"
| "fill_symbols fuel d (str # strs) =
     (case fill_symbol fuel d str of None \<Rightarrow> None | Some d1 \<Rightarrow> fill_symbols fuel d1 strs)"

text \<open>
  The switch of \<^verbatim>\<open>pn_data_vfill\<close> for the code at index \<open>pos\<close>: the status, the tree, the
  index of the next code and the arguments left. \<open>None\<close> is fuel exhausted in a loop of
  a callee. \<^verbatim>\<open>err\<close> is not assigned on every path of the C switch; where it is not, it
  holds the 0 of the iteration before (the model takes 0 in the first iteration too).
\<close>

definition vfill_code ::
  "nat \<Rightarrow> pn_data \<Rightarrow> string \<Rightarrow> nat \<Rightarrow> va_arg list
     \<Rightarrow> (pn_error option \<times> pn_data \<times> nat \<times> va_arg list) option" where
  "vfill_code fuel d fmt pos ap =
     (let code = fmt ! pos;
          nxt = pos + 1;
          ok = (\<lambda>d' ap'. Some (None, d', nxt, ap'));
          fatal = Some (Some PN_FATAL, d, nxt, ap)
      in
      if code = CHR ''n'' then ok (pn_data_put_null d) ap
      else if code = CHR ''o'' then
        (case ap of VA_int v # ap' \<Rightarrow> ok (pn_data_put_bool d (v \<noteq> 0)) ap' | _ \<Rightarrow> fatal)
      else if code = CHR ''B'' then
        (case ap of VA_int v # ap' \<Rightarrow> ok (pn_data_put_ubyte d (of_int v)) ap' | _ \<Rightarrow> fatal)
      else if code = CHR ''b'' then
        (case ap of VA_int v # ap' \<Rightarrow> ok (pn_data_put_byte d (of_int v)) ap' | _ \<Rightarrow> fatal)
      else if code = CHR ''H'' then
        (case ap of VA_int v # ap' \<Rightarrow> ok (pn_data_put_ushort d (of_int v)) ap' | _ \<Rightarrow> fatal)
      else if code = CHR ''h'' then
        (case ap of VA_int v # ap' \<Rightarrow> ok (pn_data_put_short d (of_int v)) ap' | _ \<Rightarrow> fatal)
      else if code = CHR ''I'' then
        (case ap of VA_uint32 v # ap' \<Rightarrow> ok (pn_data_put_uint d v) ap' | _ \<Rightarrow> fatal)
      else if code = CHR ''i'' then
        (case ap of VA_uint32 v # ap' \<Rightarrow> ok (pn_data_put_int d v) ap' | _ \<Rightarrow> fatal)
      else if code = CHR ''L'' then
        (case ap of VA_uint64 v # ap' \<Rightarrow> ok (pn_data_put_ulong d v) ap' | _ \<Rightarrow> fatal)
      else if code = CHR ''l'' then
        (case ap of VA_int64 v # ap' \<Rightarrow> ok (pn_data_put_long d v) ap' | _ \<Rightarrow> fatal)
      else if code = CHR ''t'' then
        (case ap of VA_int64 v # ap' \<Rightarrow> ok (pn_data_put_timestamp d v) ap' | _ \<Rightarrow> fatal)
      else if code = CHR ''f'' then
        (case ap of VA_float v # ap' \<Rightarrow> ok (pn_data_put_float d v) ap' | _ \<Rightarrow> fatal)
      else if code = CHR ''d'' then
        (case ap of VA_double v # ap' \<Rightarrow> ok (pn_data_put_double d v) ap' | _ \<Rightarrow> fatal)
      else if code = CHR ''z'' then
        (case ap of
           VA_size sz # VA_ptr (Some cs) # ap' \<Rightarrow> ok (pn_data_put_binary d (take sz cs)) ap'
         | VA_size sz # VA_ptr None # ap' \<Rightarrow> ok (pn_data_put_null d) ap'
         | _ \<Rightarrow> fatal)
      else if code = CHR ''S'' \<or> code = CHR ''s'' then
        (case ap of
           VA_ptr (Some cs) # ap' \<Rightarrow>
             if code = CHR ''S'' then ok (pn_data_put_string d (strlen_bytes cs)) ap'
             else ok (pn_data_put_symbol d (strlen_bytes cs)) ap'
         | VA_ptr None # ap' \<Rightarrow> ok (pn_data_put_null d) ap'
         | _ \<Rightarrow> fatal)
      else if code = CHR ''D'' then
        ok (snd (pn_data_enter (pn_data_put_described d))) ap
      else if code = CHR ''T'' then
        (case pn_data_node d (parent d) of
           None \<Rightarrow> fatal
         | Some par \<Rightarrow>
             if atom_type (atom_n par) = PN_ARRAY then
               (case ap of
                  VA_type ty # ap' \<Rightarrow> ok (node_upd d (parent d) (\<lambda>n. n\<lparr>type_n := ty\<rparr>)) ap'
                | _ \<Rightarrow> fatal)
             else Some (Some PN_ERR, pn_error_format d PN_ERR ''naked type'', nxt, ap))
      else if code = CHR ''@'' then
        (let described = (fmt_at fmt (int nxt + 1) = CHR ''D'');
             nxt' = (if described then nxt + 1 else nxt)
         in Some (None, snd (pn_data_enter (pn_data_put_array d described None)), nxt', ap))
      else if code = CHR ''['' then
        (if fmt_at fmt (int nxt - 2) \<noteq> CHR ''T'' then ok (snd (pn_data_enter (pn_data_put_list d))) ap
         else ok d ap)
      else if code = CHR ''{'' then ok (snd (pn_data_enter (pn_data_put_map d))) ap
      else if code = CHR ''}'' \<or> code = CHR '']'' then
        (case pn_data_exit d of
           (True, d1) \<Rightarrow> ok d1 ap
         | (False, d1) \<Rightarrow> Some (Some PN_ERR, pn_error_format d1 PN_ERR ''exit failed'', nxt, ap))
      else if code = CHR ''?'' then
        (case ap of
           VA_int v # ap' \<Rightarrow>
             if v = 0 then ok (snd (pn_data_enter (pn_data_put_null d))) ap' else ok d ap'
         | _ \<Rightarrow> fatal)
      else if code = CHR ''*'' then
        (case ap of
           VA_int cnt # VA_strings ptr # ap' \<Rightarrow>
             if fmt_at fmt (int nxt) = CHR ''s'' then
               (if nat cnt > length ptr then Some (Some PN_FATAL, d, nxt + 1, ap')
                else case fill_symbols fuel d (take (nat cnt) ptr) of
                       None \<Rightarrow> None
                     | Some d1 \<Rightarrow> Some (None, d1, nxt + 1, ap'))
             else Some (Some PN_ARG_ERR, d, nxt + 1, ap')
         | _ \<Rightarrow> fatal)
      else if code = CHR ''C'' then
        (case ap of
           VA_data (Some src) # ap' \<Rightarrow>
             if pn_data_size src > 0 then
               (case pn_data_appendn fuel d src 1 of
                  None \<Rightarrow> None
                | Some (d1, src1) \<Rightarrow> ok d1 ap')
             else ok (pn_data_put_null d) ap'
         | VA_data None # ap' \<Rightarrow> ok (pn_data_put_null d) ap'
         | _ \<Rightarrow> fatal)
      else Some (Some PN_ARG_ERR, d, nxt, ap))"

text \<open>
  \<^verbatim>\<open>pn_data_vfill\<close>: the \<^verbatim>\<open>while (*fmt)\<close> from the index \<open>pos\<close> of the format. One unit
  of fuel per code.
\<close>

fun vfill_loop ::
  "nat \<Rightarrow> pn_data \<Rightarrow> string \<Rightarrow> nat \<Rightarrow> va_arg list \<Rightarrow> (pn_error option \<times> pn_data) option" where
  "vfill_loop 0 d fmt pos ap = None"
| "vfill_loop (Suc f) d fmt pos ap =
     (if \<not> pos < length fmt \<or> fmt ! pos = CHR 0x00 then Some (None, d)
      else case vfill_code f d fmt pos ap of
        None \<Rightarrow> None
      | Some (Some e, d1, pos1, ap1) \<Rightarrow> Some (Some e, d1)
      | Some (None, d1, pos1, ap1) \<Rightarrow>
          (case fill_ascend f d1 of
             None \<Rightarrow> None
           | Some d2 \<Rightarrow> vfill_loop f d2 fmt pos1 ap1))"

definition pn_data_vfill ::
  "nat \<Rightarrow> pn_data \<Rightarrow> string \<Rightarrow> va_arg list \<Rightarrow> (pn_error option \<times> pn_data) option" where
  "pn_data_vfill fuel d fmt ap = vfill_loop fuel d fmt 0 ap"

subsection \<open>The format interpreter: scan\<close>

text \<open>
  \<^verbatim>\<open>pn_scan_next\<close>: whether a next element was found, its kind (\<open>None\<close> for the \<open>-1\<close>
  stored when there is none, and when suspended, where \<^verbatim>\<open>*type\<close> is not written), and
  the tree with the cursor moved. The first argument is fuel for the recursion that
  leaves descriptors.
\<close>

fun pn_scan_next :: "nat \<Rightarrow> pn_data \<Rightarrow> bool \<Rightarrow> (bool \<times> pn_type option \<times> pn_data) option" where
  "pn_scan_next 0 d suspend = None"
| "pn_scan_next (Suc f) d suspend =
     (if suspend then Some (False, None, d)
      else case pn_data_next d of
        (True, d1) \<Rightarrow> Some (True, pn_data_type d1, d1)
      | (False, d1) \<Rightarrow>
          (case pn_data_node d1 (parent d1) of
             Some par \<Rightarrow>
               if atom_type (atom_n par) = PN_DESCRIPTOR then pn_scan_next f (snd (pn_data_exit d1)) suspend
               else Some (False, None, d1)
           | None \<Rightarrow> Some (False, None, d1)))"

text \<open>
  What the scan stores through its output pointers: fixed-width values as their bits,
  byte spans as their contents, and for a \<open>C\<close> code that is not suspended the tree it
  was given, as the code leaves it.
\<close>

datatype scan_val =
    V_bool bool
  | V_u8 "8 word"
  | V_u16 "16 word"
  | V_u32 "32 word"
  | V_u64 "64 word"
  | V_bytes "8 word list"
  | V_data pn_data

text \<open>
  The local variables of \<^verbatim>\<open>pn_data_vscan\<close> with the tree. The variadic arguments are
  pointers: \<open>argi_s\<close> counts the arguments read, \<open>outs_s\<close> lists every store through one
  of them (the index of the argument, the value stored), \<open>scanarg_s\<close> is the index of the
  pending \<^verbatim>\<open>bool *scanarg\<close>, and \<open>dsts_s\<close> are the trees that the \<open>C\<close> codes still to come
  receive.
\<close>

record scan_state =
  data_s :: pn_data
  scanarg_s :: "nat option"
  at_s :: bool
  level_s :: int
  count_level_s :: int
  resume_count_s :: int
  argi_s :: nat
  outs_s :: "(nat \<times> scan_val) list"
  dsts_s :: "pn_data list"

text \<open>\<^verbatim>\<open>if (resume_count && level == count_level) resume_count--;\<close>\<close>

definition resume_dec :: "scan_state \<Rightarrow> scan_state" where
  "resume_dec st =
     (if resume_count_s st \<noteq> 0 \<and> level_s st = count_level_s st
      then st\<lparr>resume_count_s := resume_count_s st - 1\<rparr> else st)"

text \<open>A store through the next variadic argument.\<close>

definition scan_store :: "scan_state \<Rightarrow> scan_val \<Rightarrow> scan_state" where
  "scan_store st v = st\<lparr>outs_s := outs_s st @ [(argi_s st, v)], argi_s := argi_s st + 1\<rparr>"

text \<open>
  The switch of \<^verbatim>\<open>pn_data_vscan\<close> for one code, with \<open>nextc\<close> the character after it:
  the error returned with the tree, or the new state with \<^verbatim>\<open>scanned\<close>. The closing
  codes and \<open>?\<close> leave \<^verbatim>\<open>scanned\<close> unassigned in C; the model gives \<open>False\<close>.
\<close>

definition vscan_code ::
  "nat \<Rightarrow> scan_state \<Rightarrow> char \<Rightarrow> char \<Rightarrow> (pn_error \<times> pn_data + scan_state \<times> bool) option" where
  "vscan_code fuel st code nextc =
     (let suspend = (resume_count_s st > 0);
          d = data_s st
      in
      if code = CHR ''n'' then
        (case pn_scan_next fuel d suspend of
           None \<Rightarrow> None
         | Some (found, type, d1) \<Rightarrow>
             Some (Inr (resume_dec (st\<lparr>data_s := d1\<rparr>), found \<and> type = Some PN_NULL)))
      else if code = CHR ''o'' then
        (case pn_scan_next fuel d suspend of
           None \<Rightarrow> None
         | Some (found, type, d1) \<Rightarrow>
             if found \<and> type = Some PN_BOOL
             then Some (Inr (resume_dec (scan_store (st\<lparr>data_s := d1\<rparr>) (V_bool (pn_data_get_bool d1))), True))
             else Some (Inr (resume_dec (scan_store (st\<lparr>data_s := d1\<rparr>) (V_bool False)), False)))
      else if code = CHR ''B'' then
        (case pn_scan_next fuel d suspend of
           None \<Rightarrow> None
         | Some (found, type, d1) \<Rightarrow>
             if found \<and> type = Some PN_UBYTE
             then Some (Inr (resume_dec (scan_store (st\<lparr>data_s := d1\<rparr>) (V_u8 (pn_data_get_ubyte d1))), True))
             else Some (Inr (resume_dec (scan_store (st\<lparr>data_s := d1\<rparr>) (V_u8 0)), False)))
      else if code = CHR ''b'' then
        (case pn_scan_next fuel d suspend of
           None \<Rightarrow> None
         | Some (found, type, d1) \<Rightarrow>
             if found \<and> type = Some PN_BYTE
             then Some (Inr (resume_dec (scan_store (st\<lparr>data_s := d1\<rparr>) (V_u8 (pn_data_get_byte d1))), True))
             else Some (Inr (resume_dec (scan_store (st\<lparr>data_s := d1\<rparr>) (V_u8 0)), False)))
      else if code = CHR ''H'' then
        (case pn_scan_next fuel d suspend of
           None \<Rightarrow> None
         | Some (found, type, d1) \<Rightarrow>
             if found \<and> type = Some PN_USHORT
             then Some (Inr (resume_dec (scan_store (st\<lparr>data_s := d1\<rparr>) (V_u16 (pn_data_get_ushort d1))), True))
             else Some (Inr (resume_dec (scan_store (st\<lparr>data_s := d1\<rparr>) (V_u16 0)), False)))
      else if code = CHR ''h'' then
        (case pn_scan_next fuel d suspend of
           None \<Rightarrow> None
         | Some (found, type, d1) \<Rightarrow>
             if found \<and> type = Some PN_SHORT
             then Some (Inr (resume_dec (scan_store (st\<lparr>data_s := d1\<rparr>) (V_u16 (pn_data_get_short d1))), True))
             else Some (Inr (resume_dec (scan_store (st\<lparr>data_s := d1\<rparr>) (V_u16 0)), False)))
      else if code = CHR ''I'' then
        (case pn_scan_next fuel d suspend of
           None \<Rightarrow> None
         | Some (found, type, d1) \<Rightarrow>
             if found \<and> type = Some PN_UINT
             then Some (Inr (resume_dec (scan_store (st\<lparr>data_s := d1\<rparr>) (V_u32 (pn_data_get_uint d1))), True))
             else Some (Inr (resume_dec (scan_store (st\<lparr>data_s := d1\<rparr>) (V_u32 0)), False)))
      else if code = CHR ''i'' then
        (case pn_scan_next fuel d suspend of
           None \<Rightarrow> None
         | Some (found, type, d1) \<Rightarrow>
             if found \<and> type = Some PN_INT
             then Some (Inr (resume_dec (scan_store (st\<lparr>data_s := d1\<rparr>) (V_u32 (pn_data_get_int d1))), True))
             else Some (Inr (resume_dec (scan_store (st\<lparr>data_s := d1\<rparr>) (V_u32 0)), False)))
      else if code = CHR ''c'' then
        (case pn_scan_next fuel d suspend of
           None \<Rightarrow> None
         | Some (found, type, d1) \<Rightarrow>
             if found \<and> type = Some PN_CHAR
             then Some (Inr (resume_dec (scan_store (st\<lparr>data_s := d1\<rparr>) (V_u32 (pn_data_get_char d1))), True))
             else Some (Inr (resume_dec (scan_store (st\<lparr>data_s := d1\<rparr>) (V_u32 0)), False)))
      else if code = CHR ''L'' then
        (case pn_scan_next fuel d suspend of
           None \<Rightarrow> None
         | Some (found, type, d1) \<Rightarrow>
             if found \<and> type = Some PN_ULONG
             then Some (Inr (resume_dec (scan_store (st\<lparr>data_s := d1\<rparr>) (V_u64 (pn_data_get_ulong d1))), True))
             else Some (Inr (resume_dec (scan_store (st\<lparr>data_s := d1\<rparr>) (V_u64 0)), False)))
      else if code = CHR ''l'' then
        (case pn_scan_next fuel d suspend of
           None \<Rightarrow> None
         | Some (found, type, d1) \<Rightarrow>
             if found \<and> type = Some PN_LONG
             then Some (Inr (resume_dec (scan_store (st\<lparr>data_s := d1\<rparr>) (V_u64 (pn_data_get_long d1))), True))
             else Some (Inr (resume_dec (scan_store (st\<lparr>data_s := d1\<rparr>) (V_u64 0)), False)))
      else if code = CHR ''t'' then
        (case pn_scan_next fuel d suspend of
           None \<Rightarrow> None
         | Some (found, type, d1) \<Rightarrow>
             if found \<and> type = Some PN_TIMESTAMP
             then Some (Inr (resume_dec (scan_store (st\<lparr>data_s := d1\<rparr>) (V_u64 (pn_data_get_timestamp d1))), True))
             else Some (Inr (resume_dec (scan_store (st\<lparr>data_s := d1\<rparr>) (V_u64 0)), False)))
      else if code = CHR ''f'' then
        (case pn_scan_next fuel d suspend of
           None \<Rightarrow> None
         | Some (found, type, d1) \<Rightarrow>
             if found \<and> type = Some PN_FLOAT
             then Some (Inr (resume_dec (scan_store (st\<lparr>data_s := d1\<rparr>) (V_u32 (pn_data_get_float d1))), True))
             else Some (Inr (resume_dec (scan_store (st\<lparr>data_s := d1\<rparr>) (V_u32 0)), False)))
      else if code = CHR ''d'' then
        (case pn_scan_next fuel d suspend of
           None \<Rightarrow> None
         | Some (found, type, d1) \<Rightarrow>
             if found \<and> type = Some PN_DOUBLE
             then Some (Inr (resume_dec (scan_store (st\<lparr>data_s := d1\<rparr>) (V_u64 (pn_data_get_double d1))), True))
             else Some (Inr (resume_dec (scan_store (st\<lparr>data_s := d1\<rparr>) (V_u64 0)), False)))
      else if code = CHR ''z'' then
        (case pn_scan_next fuel d suspend of
           None \<Rightarrow> None
         | Some (found, type, d1) \<Rightarrow>
             if found \<and> type = Some PN_BINARY
             then Some (Inr (resume_dec (scan_store (st\<lparr>data_s := d1\<rparr>) (V_bytes (pn_data_get_binary d1))), True))
             else Some (Inr (resume_dec (scan_store (st\<lparr>data_s := d1\<rparr>) (V_bytes [])), False)))
      else if code = CHR ''S'' then
        (case pn_scan_next fuel d suspend of
           None \<Rightarrow> None
         | Some (found, type, d1) \<Rightarrow>
             if found \<and> type = Some PN_STRING
             then Some (Inr (resume_dec (scan_store (st\<lparr>data_s := d1\<rparr>) (V_bytes (pn_data_get_string d1))), True))
             else Some (Inr (resume_dec (scan_store (st\<lparr>data_s := d1\<rparr>) (V_bytes [])), False)))
      else if code = CHR ''s'' then
        (case pn_scan_next fuel d suspend of
           None \<Rightarrow> None
         | Some (found, type, d1) \<Rightarrow>
             if found \<and> type = Some PN_SYMBOL
             then Some (Inr (resume_dec (scan_store (st\<lparr>data_s := d1\<rparr>) (V_bytes (pn_data_get_symbol d1))), True))
             else Some (Inr (resume_dec (scan_store (st\<lparr>data_s := d1\<rparr>) (V_bytes [])), False)))
      else if code = CHR ''D'' then
        (case pn_scan_next fuel d suspend of
           None \<Rightarrow> None
         | Some (found, type, d1) \<Rightarrow>
             if found \<and> type = Some PN_DESCRIPTOR
             then Some (Inr (resume_dec (st\<lparr>data_s := snd (pn_data_enter d1)\<rparr>), True))
             else
               (let st1 = st\<lparr>data_s := d1\<rparr>;
                    st2 = (if \<not> suspend then st1\<lparr>resume_count_s := 3, count_level_s := level_s st1\<rparr>
                           else st1)
                in Some (Inr (resume_dec st2, False))))
      else if code = CHR ''@'' then
        (case pn_scan_next fuel d suspend of
           None \<Rightarrow> None
         | Some (found, type, d1) \<Rightarrow>
             if found \<and> type = Some PN_ARRAY
             then Some (Inr (resume_dec (st\<lparr>data_s := snd (pn_data_enter d1), at_s := True\<rparr>), True))
             else
               (let st1 = st\<lparr>data_s := d1\<rparr>;
                    st2 = (if \<not> suspend then st1\<lparr>resume_count_s := 3, count_level_s := level_s st1\<rparr>
                           else st1)
                in Some (Inr (resume_dec st2, False))))
      else if code = CHR ''['' then
        (if at_s st then Some (Inr (st\<lparr>at_s := False, level_s := level_s st + 1\<rparr>, True))
         else
           (case pn_scan_next fuel d suspend of
              None \<Rightarrow> None
            | Some (found, type, d1) \<Rightarrow>
                if found \<and> type = Some PN_LIST
                then Some (Inr (st\<lparr>data_s := snd (pn_data_enter d1), level_s := level_s st + 1\<rparr>, True))
                else
                  (let st1 = st\<lparr>data_s := d1\<rparr>;
                       st2 = (if \<not> suspend then st1\<lparr>resume_count_s := 1, count_level_s := level_s st1\<rparr>
                              else st1)
                   in Some (Inr (st2\<lparr>level_s := level_s st2 + 1\<rparr>, False)))))
      else if code = CHR ''{'' then
        (case pn_scan_next fuel d suspend of
           None \<Rightarrow> None
         | Some (found, type, d1) \<Rightarrow>
             if found \<and> type = Some PN_MAP
             then Some (Inr (st\<lparr>data_s := snd (pn_data_enter d1), level_s := level_s st + 1\<rparr>, True))
             else
               (let st1 = st\<lparr>data_s := d1\<rparr>;
                    st2 = (if resume_count_s st1 \<noteq> 0
                           then st1\<lparr>resume_count_s := 1, count_level_s := level_s st1\<rparr>
                           else st1)
                in Some (Inr (st2\<lparr>level_s := level_s st2 + 1\<rparr>, False))))
      else if code = CHR '']'' \<or> code = CHR ''}'' then
        (let st1 = st\<lparr>level_s := level_s st - 1\<rparr> in
         if suspend then Some (Inr (resume_dec st1, False))
         else case pn_data_exit d of
           (False, d1) \<Rightarrow> Some (Inl (PN_ERR, pn_error_format d1 PN_ERR ''exit failed''))
         | (True, d1) \<Rightarrow> Some (Inr (resume_dec (st1\<lparr>data_s := d1\<rparr>), False)))
      else if code = CHR ''.'' then
        (case pn_scan_next fuel d suspend of
           None \<Rightarrow> None
         | Some (found, type, d1) \<Rightarrow> Some (Inr (resume_dec (st\<lparr>data_s := d1\<rparr>), found)))
      else if code = CHR ''?'' then
        (if nextc = CHR 0x00 \<or> nextc = CHR ''?''
         then Some (Inl (PN_ARG_ERR, pn_error_format d PN_ARG_ERR ''codes must follow a ?''))
         else Some (Inr (st\<lparr>scanarg_s := Some (argi_s st), argi_s := argi_s st + 1\<rparr>, False)))
      else if code = CHR ''C'' then
        (case dsts_s st of
           [] \<Rightarrow> Some (Inl (PN_FATAL, d))
         | dst # rest \<Rightarrow>
             if \<not> suspend then
               (let old = pn_data_size dst in
                case (case pn_data_peek d of
                        None \<Rightarrow> Some (dst, d, False)
                      | Some nxt \<Rightarrow>
                          if atom_type (atom_n nxt) \<noteq> PN_NULL then
                            (case pn_data_appendn fuel dst (pn_data_narrow d) 1 of
                               None \<Rightarrow> None
                             | Some (dst1, d1) \<Rightarrow>
                                 Some (dst1, pn_data_widen d1, pn_data_size dst1 > old))
                          else Some (dst, d, False)) of
                  None \<Rightarrow> None
                | Some (dst1, d1, scanned) \<Rightarrow>
                    Some (Inr (resume_dec (scan_store (st\<lparr>data_s := snd (pn_data_next d1), dsts_s := rest\<rparr>)
                                             (V_data dst1)), scanned)))
             else Some (Inr (resume_dec (st\<lparr>dsts_s := rest, argi_s := argi_s st + 1\<rparr>), False)))
      else Some (Inl (PN_ARG_ERR, pn_error_format d PN_ARG_ERR ''unrecognized scan code'')))"

text \<open>\<^verbatim>\<open>if (scanarg && code != '?') { *scanarg = scanned; scanarg = NULL; }\<close>\<close>

definition scanarg_store :: "scan_state \<Rightarrow> char \<Rightarrow> bool \<Rightarrow> scan_state" where
  "scanarg_store st code scanned =
     (case scanarg_s st of
        Some k \<Rightarrow>
          if code \<noteq> CHR ''?'' then st\<lparr>outs_s := outs_s st @ [(k, V_bool scanned)], scanarg_s := None\<rparr>
          else st
      | None \<Rightarrow> st)"

text \<open>The \<^verbatim>\<open>while (*fmt)\<close> of \<^verbatim>\<open>pn_data_vscan\<close> from the index \<open>pos\<close>; fuel per code.\<close>

fun vscan_loop ::
  "nat \<Rightarrow> scan_state \<Rightarrow> string \<Rightarrow> nat \<Rightarrow> (pn_error option \<times> scan_state) option" where
  "vscan_loop 0 st fmt pos = None"
| "vscan_loop (Suc f) st fmt pos =
     (if \<not> pos < length fmt \<or> fmt ! pos = CHR 0x00 then Some (None, st)
      else case vscan_code f st (fmt ! pos) (fmt_at fmt (int pos + 1)) of
        None \<Rightarrow> None
      | Some (Inl (e, d1)) \<Rightarrow> Some (Some e, st\<lparr>data_s := d1\<rparr>)
      | Some (Inr (st1, scanned)) \<Rightarrow>
          vscan_loop f (scanarg_store st1 (fmt ! pos) scanned) fmt (pos + 1))"

definition scan_init :: "pn_data \<Rightarrow> pn_data list \<Rightarrow> scan_state" where
  "scan_init d dsts =
     \<lparr>data_s = pn_data_rewind d, scanarg_s = None, at_s = False, level_s = 0,
      count_level_s = - 1, resume_count_s = 0, argi_s = 0, outs_s = [], dsts_s = dsts\<rparr>"

definition pn_data_vscan ::
  "nat \<Rightarrow> pn_data \<Rightarrow> string \<Rightarrow> pn_data list \<Rightarrow> (pn_error option \<times> scan_state) option" where
  "pn_data_vscan fuel d fmt dsts = vscan_loop fuel (scan_init d dsts) fmt 0"

subsection \<open>Predicates used in the properties\<close>

text \<open>
  A primitive operation at a cursor is exact for \<open>n\<close> bytes: with \<open>n\<close> bytes left it
  succeeds and the cursor has moved by \<open>n\<close>; with fewer it returns the code \<open>fail\<close> and
  the cursor is as it was.
\<close>

definition io_exact :: "nat \<Rightarrow> pn_error \<Rightarrow> pn_bytes \<Rightarrow> pn_error option \<times> pn_bytes \<Rightarrow> bool" where
  "io_exact n fail bytes r =
     (if n \<le> size_b bytes
      then fst r = None \<and> start_b (snd r) = start_b bytes + n \<and> size_b (snd r) = size_b bytes - n
      else fst r = Some fail \<and> snd r = bytes)"

text \<open>The status and the cursor of a write, and of a decode step (exhausted fuel is no result).\<close>

definition write_result :: "pn_error option \<times> memory \<times> pn_bytes \<Rightarrow> pn_error option \<times> pn_bytes" where
  "write_result r = (fst r, snd (snd r))"

definition read_result ::
  "(pn_error option \<times> pn_bytes \<times> pn_atoms) option \<Rightarrow> pn_error option \<times> pn_bytes" where
  "read_result r =
     (case r of
        Some (rc, bytes, atoms) \<Rightarrow> (rc, bytes)
      | None \<Rightarrow> (Some PN_FATAL, \<lparr>size_b = 0, start_b = 0\<rparr>))"

text \<open>The node with the id \<open>n\<close>, \<^verbatim>\<open>pn_data_node(data, n)\<close> for \<open>n\<close> other than 0.\<close>

definition node_at :: "pn_data \<Rightarrow> nat \<Rightarrow> pn_node" where
  "node_at d n = nodes d ! (n - 1)"






text \<open>The bytes of a word in network order, as \<^verbatim>\<open>pn_i_bytes_writef16/32/64\<close> lay them out.\<close>

definition be_bytes :: "nat \<Rightarrow> 'a::len word \<Rightarrow> 8 word list" where
  "be_bytes n v = rev (le_bytes n v)"

text \<open>
  The cursor \<open>bytes1\<close> is the cursor \<open>bytes\<close> moved forward within its span: the start has
  advanced by as many bytes as the remaining size has dropped.
\<close>

definition advanced :: "pn_bytes \<Rightarrow> pn_bytes \<Rightarrow> bool" where
  "advanced bytes bytes1 =
     (start_b bytes \<le> start_b bytes1
      \<and> start_b bytes1 + size_b bytes1 = start_b bytes + size_b bytes)"

subsection \<open>The structural invariants of the tree\<close>

text \<open>
  The sibling list from the node \<open>n\<close>: \<open>n\<close>, its \<open>next\<close>, and so on to the node whose
  \<open>next\<close> is 0. \<open>nx\<close> gives the \<open>next\<close> link of an id and \<open>sz\<close> is the number of nodes in
  use. The walk only follows a link to a larger id within \<open>sz\<close>, which makes it total;
  in a tree with \<open>links_ok\<close> every link is such a link, and the walk is the whole list.
\<close>

function chain :: "(nat \<Rightarrow> nat) \<Rightarrow> nat \<Rightarrow> nat \<Rightarrow> nat list" where
  "chain nx sz n =
     (if n = 0 \<or> sz < n then []
      else n # (if n < nx n then chain nx sz (nx n) else []))"
  by pat_completeness auto
termination
  by (relation "measure (\<lambda>(nx, sz, n). Suc sz - n)") auto

text \<open>
  The first element below a parent, as \<^verbatim>\<open>pn_data_next\<close> and \<^verbatim>\<open>pn_data_add\<close> find it:
  the parent's \<open>down\<close>, and at the top level (parent 0) the node 1 when there is one.
\<close>

definition first_child :: "pn_data \<Rightarrow> nat \<Rightarrow> nat" where
  "first_child d p =
     (if p = 0 then (if size_d d \<noteq> 0 then 1 else 0) else down_n (node_at d p))"

definition children_of :: "pn_data \<Rightarrow> nat \<Rightarrow> nat list" where
  "children_of d p = chain (\<lambda>n. next_n (node_at d n)) (size_d d) (first_child d p)"

text \<open>
  The links are in range and ordered: the array holds the nodes in use, the four cursor
  fields name nodes in use (or none), and the links of a node in use lead back
  (\<open>prev\<close>, \<open>parent\<close>) to smaller ids and forward (\<open>next\<close>, \<open>down\<close>) to larger ids in use.
\<close>

definition links_ok :: "pn_data \<Rightarrow> bool" where
  "links_ok d =
     (capacity d = length (nodes d) \<and> size_d d \<le> length (nodes d)
      \<and> parent d \<le> size_d d \<and> current d \<le> size_d d
      \<and> base_parent d \<le> size_d d \<and> base_current d \<le> size_d d
      \<and> (\<forall>n \<in> {1..size_d d}.
            prev_n (node_at d n) < n \<and> parent_n (node_at d n) < n
            \<and> (next_n (node_at d n) = 0
                \<or> (n < next_n (node_at d n) \<and> next_n (node_at d n) \<le> size_d d))
            \<and> (down_n (node_at d n) = 0
                \<or> (n < down_n (node_at d n) \<and> down_n (node_at d n) \<le> size_d d))))"

text \<open>
  What holds at each node in use: its next sibling points back to it and has the same
  parent; its first child has no previous sibling and has it as parent; its \<open>children\<close>
  is the length of the sibling list from its first child.
\<close>

definition node_inv :: "pn_data \<Rightarrow> nat \<Rightarrow> bool" where
  "node_inv d n =
     ((next_n (node_at d n) = 0
        \<or> (prev_n (node_at d (next_n (node_at d n))) = n
            \<and> parent_n (node_at d (next_n (node_at d n))) = parent_n (node_at d n)))
      \<and> (down_n (node_at d n) = 0
          \<or> (prev_n (node_at d (down_n (node_at d n))) = 0
              \<and> parent_n (node_at d (down_n (node_at d n))) = n))
      \<and> children_n (node_at d n) = length (children_of d n))"

text \<open>
  The node \<open>n\<close> is reached from the top: it is in the sibling list below its parent, and
  so is its parent, up to the top level. (A node whose parent was overwritten by a later
  \<^verbatim>\<open>pn_data_add\<close> is still in the array, and is not reached.)
\<close>

function on_path :: "pn_data \<Rightarrow> nat \<Rightarrow> bool" where
  "on_path d n =
     (if n = 0 then True
      else if parent_n (node_at d n) < n
        then n \<in> set (children_of d (parent_n (node_at d n))) \<and> on_path d (parent_n (node_at d n))
      else False)"
  by pat_completeness auto
termination
  by (relation "measure snd") auto

text \<open>
  The invariant: the links are in range and ordered, every node in use has \<open>node_inv\<close>,
  and the cursor is on a reached node below \<open>parent\<close>, or before the first child of a
  reached \<open>parent\<close>.
\<close>

definition tree_inv :: "pn_data \<Rightarrow> bool" where
  "tree_inv d =
     (links_ok d \<and> (\<forall>n \<in> {1..size_d d}. node_inv d n)
      \<and> (if current d \<noteq> 0
          then parent_n (node_at d (current d)) = parent d \<and> on_path d (current d)
          else on_path d (parent d)))"

text \<open>
  The three statements about a parent \<open>p\<close> and its children, the sibling list from its
  \<open>down\<close> link: every child's \<open>parent\<close> is \<open>p\<close>; the list is doubly linked, from a head
  without \<open>prev\<close> to a last node without \<open>next\<close>; and \<open>children\<close> is its length.
\<close>

definition family_ok :: "pn_data \<Rightarrow> nat \<Rightarrow> bool" where
  "family_ok d p =
     (let cs = children_of d p in
      (\<forall>c \<in> set cs. parent_n (node_at d c) = p)
      \<and> (case cs of
            [] \<Rightarrow> down_n (node_at d p) = 0
          | c # _ \<Rightarrow> down_n (node_at d p) = c \<and> prev_n (node_at d c) = 0
                     \<and> next_n (node_at d (last cs)) = 0)
      \<and> (\<forall>i \<in> {0..<length cs - 1}.
            next_n (node_at d (cs ! i)) = cs ! Suc i \<and> prev_n (node_at d (cs ! Suc i)) = cs ! i)
      \<and> children_n (node_at d p) = length cs)"

text \<open>The calls \<^verbatim>\<open>pn_data_put_*\<close>, as values, and a call made.\<close>

datatype put_call =
    Put_leaf pn_iatom
  | Put_list
  | Put_map
  | Put_described
  | Put_array bool "pn_type option"

fun do_put :: "pn_data \<Rightarrow> put_call \<Rightarrow> pn_data" where
  "do_put d (Put_leaf a) = put_leaf d a"
| "do_put d Put_list = pn_data_put_list d"
| "do_put d Put_map = pn_data_put_map d"
| "do_put d Put_described = pn_data_put_described d"
| "do_put d (Put_array described type) = pn_data_put_array d described type"

section \<open>Properties\<close>

subsection \<open>Primitive I/O\<close>

lemma ltrim_exact:
  "n \<le> size_b bytes \<Longrightarrow>
   pn_bytes_ltrim bytes n = bytes\<lparr>start_b := start_b bytes + n, size_b := size_b bytes - n\<rparr>"
  by (simp add: pn_bytes_ltrim_def Let_def)

lemma writef8_exact: "io_exact 1 PN_OVERFLOW bytes (write_result (pn_i_bytes_writef8 mem bytes v))"
  by (simp add: io_exact_def write_result_def pn_i_bytes_writef8_def ltrim_exact)

lemma writef16_exact: "io_exact 2 PN_OVERFLOW bytes (write_result (pn_i_bytes_writef16 mem bytes v))"
  by (simp add: io_exact_def write_result_def pn_i_bytes_writef16_def ltrim_exact)

lemma writef32_exact: "io_exact 4 PN_OVERFLOW bytes (write_result (pn_i_bytes_writef32 mem bytes v))"
  by (simp add: io_exact_def write_result_def pn_i_bytes_writef32_def ltrim_exact)

lemma writef64_exact: "io_exact 8 PN_OVERFLOW bytes (write_result (pn_i_bytes_writef64 mem bytes v))"
  by (simp add: io_exact_def write_result_def pn_i_bytes_writef64_def ltrim_exact)

lemma writef128_exact: "io_exact 16 PN_OVERFLOW bytes (write_result (pn_i_bytes_writef128 mem bytes v))"
  by (simp add: io_exact_def write_result_def pn_i_bytes_writef128_def ltrim_exact)

lemma writev8_exact:
  "io_exact (1 + length v) PN_OVERFLOW bytes (write_result (pn_i_bytes_writev8 mem bytes v))"
  by (auto simp add: io_exact_def write_result_def pn_i_bytes_writev8_def pn_i_bytes_writef8_def
      ltrim_exact)

lemma writev32_exact:
  "io_exact (4 + length v) PN_OVERFLOW bytes (write_result (pn_i_bytes_writev32 mem bytes v))"
  by (auto simp add: io_exact_def write_result_def pn_i_bytes_writev32_def pn_i_bytes_writef32_def
      ltrim_exact)

text \<open>
  The fixed-width reads of the leaf cases of \<^verbatim>\<open>pn_decode_value\<close>, each behind the size
  check of its case.
\<close>

lemma read8_exact:
  "0 < size_a atoms \<Longrightarrow>
   code \<in> {PNE_BOOLEAN, PNE_UBYTE, PNE_BYTE, PNE_SMALLUINT, PNE_SMALLINT, PNE_SMALLULONG,
            PNE_SMALLLONG} \<Longrightarrow>
   io_exact 1 PN_UNDERFLOW bytes (read_result (pn_decode_value (Suc f) mem bytes atoms code))"
  by (elim insertE emptyE; hypsubst;
      simp add: read_result_def pn_decode_value_head_def pn_decode_value_leaf_def
        pn_i_bytes_readf8_def;
      simp add: io_exact_def ltrim_exact)

lemma read16_exact:
  "0 < size_a atoms \<Longrightarrow> code \<in> {PNE_USHORT, PNE_SHORT} \<Longrightarrow>
   io_exact 2 PN_UNDERFLOW bytes (read_result (pn_decode_value (Suc f) mem bytes atoms code))"
  by (elim insertE emptyE; hypsubst;
      simp add: read_result_def pn_decode_value_head_def pn_decode_value_leaf_def
        pn_i_bytes_readf16_def Let_def;
      simp add: io_exact_def ltrim_exact)

lemma read32_exact:
  "0 < size_a atoms \<Longrightarrow> code \<in> {PNE_UINT, PNE_INT, PNE_UTF32, PNE_FLOAT, PNE_DECIMAL32} \<Longrightarrow>
   io_exact 4 PN_UNDERFLOW bytes (read_result (pn_decode_value (Suc f) mem bytes atoms code))"
  by (elim insertE emptyE; hypsubst;
      simp add: read_result_def pn_decode_value_head_def pn_decode_value_leaf_def
        pn_i_bytes_readf32_def Let_def;
      simp add: io_exact_def ltrim_exact)

lemma read64_exact:
  "0 < size_a atoms \<Longrightarrow> code \<in> {PNE_ULONG, PNE_LONG, PNE_MS64, PNE_DOUBLE, PNE_DECIMAL64} \<Longrightarrow>
   io_exact 8 PN_UNDERFLOW bytes (read_result (pn_decode_value (Suc f) mem bytes atoms code))"
  by (elim insertE emptyE; hypsubst;
      simp add: read_result_def pn_decode_value_head_def pn_decode_value_leaf_def
        pn_i_bytes_readf64_def pn_i_bytes_readf32_def Let_def;
      simp add: io_exact_def ltrim_exact)

lemma read128_exact:
  "0 < size_a atoms \<Longrightarrow> code \<in> {PNE_DECIMAL128, PNE_UUID} \<Longrightarrow>
   io_exact 16 PN_UNDERFLOW bytes (read_result (pn_decode_value (Suc f) mem bytes atoms code))"
  by (elim insertE emptyE; hypsubst;
      simp add: read_result_def pn_decode_value_head_def pn_decode_value_leaf_def Let_def;
      simp add: io_exact_def ltrim_exact)

lemma list32_head_two_bytes: "decode_compound_header (\<lambda>a. if a = 0 then PNE_LIST32 else 0) \<lparr>size_b = 2, start_b = 1\<rparr> PNE_LIST32
     = (Inr (0, 0), \<lparr>size_b = 0, start_b = 3\<rparr>)"
  by (simp add: decode_compound_header_def pn_i_bytes_readf32_def pn_bytes_ltrim_def Let_def)

lemma list32_value_two_bytes: "pn_decode_value (Suc (Suc 0)) (\<lambda>a. if a = 0 then PNE_LIST32 else 0)
            \<lparr>size_b = 2, start_b = 1\<rparr> \<lparr>size_a = 4, out_a = []\<rparr> PNE_LIST32 = Some (None, \<lparr>size_b = 0, start_b = 3\<rparr>, \<lparr>size_a = 3, out_a = [A_LIST 0]\<rparr>)"
  by (simp add: decode_compound_header_def pn_i_bytes_readf32_def pn_bytes_ltrim_def Let_def pn_decode_value_head_def pn_decode_value_leaf_def atoms_put_def)

lemma list32_one_byte_input: "pn_decode_one (Suc (Suc (Suc 0))) (\<lambda>a. if a = 0 then PNE_LIST32 else 0) \<lparr>size_b = 1, start_b = 0\<rparr> 64
       = Some (Inr (1, [A_LIST 0]))"
  by (simp add: decode_compound_header_def pn_i_bytes_readf32_def pn_bytes_ltrim_def Let_def
       pn_decode_value_head_def pn_decode_value_leaf_def
      pn_decode_one_def atoms_put_def)

text \<open>
  The writes, and the reads above, are exact. The remaining 32-bit reads are those of the
  head of \<open>list32\<close>, \<open>map32\<close> and \<open>array32\<close>, which \<^verbatim>\<open>pn_decode_value\<close> makes without
  the size check that the 8-bit heads have.

  C4 (every primitive read fails with underflow and without a partial advance), at the
  input that shows the missing check. The memory holds the byte \<open>0xD0\<close> (list32) at
  address 0 and zeros elsewhere. With the two bytes at addresses 1 and 2 as the rest of
  the input, the head reads eight bytes, moves the cursor by the two it has, and reports
  no error. With the one byte at address 0 as the whole input, \<^verbatim>\<open>pn_decode_one\<close>
  succeeds with an empty list read from memory outside the input.
\<close>

theorem compound32_head_read_has_no_size_check:
  "decode_compound_header (\<lambda>a. if a = 0 then PNE_LIST32 else 0) \<lparr>size_b = 2, start_b = 1\<rparr> PNE_LIST32
     = (Inr (0, 0), \<lparr>size_b = 0, start_b = 3\<rparr>)
   \<and> \<not> io_exact 8 PN_UNDERFLOW \<lparr>size_b = 2, start_b = 1\<rparr>
         (read_result (pn_decode_value (Suc (Suc 0)) (\<lambda>a. if a = 0 then PNE_LIST32 else 0)
            \<lparr>size_b = 2, start_b = 1\<rparr> \<lparr>size_a = 4, out_a = []\<rparr> PNE_LIST32))
   \<and> pn_decode_one (Suc (Suc (Suc 0))) (\<lambda>a. if a = 0 then PNE_LIST32 else 0) \<lparr>size_b = 1, start_b = 0\<rparr> 64
       = Some (Inr (1, [A_LIST 0]))"
  by (simp only: list32_head_two_bytes list32_value_two_bytes list32_one_byte_input) (simp add: io_exact_def read_result_def)

subsection \<open>The one-byte signed codes\<close>

lemma sint_ucast_8_32: "sint (ucast (b :: 8 word) :: 32 word) = uint b"
proof -
  have "uint b < 2 ^ 8" using uint_bounded[of b] by simp
  then have "uint b < 2 ^ 31" by simp
  moreover have "- (2 ^ 31) \<le> uint b"
    by (rule order_trans[OF _ uint_nonnegative]) simp
  ultimately show ?thesis
    by (simp add: signed_ucast_eq signed_take_bit_int_eq_self)
qed

lemma odd_div_128: "0 \<le> (x::int) \<Longrightarrow> x < 256 \<Longrightarrow> odd (x div 128) = (128 \<le> x)"
proof (cases "x < 128")
  case True
  assume "0 \<le> x" with True show ?thesis by simp
next
  case False
  assume "x < 256"
  with False have "x div 128 = 1" by linarith
  with False show ?thesis by simp
qed

lemma sint_neg_8: "(sint (b :: 8 word) < 0) = (128 \<le> b)"
proof -
  have "bit b 7 = (sint b < 0)" using bit_last_iff[of b] by simp
  moreover have "bit b 7 = bit (uint b) 7" by (simp add: bit_uint_iff)
  moreover have "bit (uint b) 7 = odd (uint b div 128)" by (simp add: bit_iff_odd)
  moreover have "uint b < 256" using uint_bounded[of b] by simp
  moreover have "(128 \<le> b) = (128 \<le> uint b)" by (simp add: word_le_def)
  ultimately show ?thesis using odd_div_128[of "uint b"] by simp
qed

text \<open>
  C10. With a byte \<open>b\<close> to read and room for an atom, the code \<open>smallint\<close> decodes to
  the int atom whose value is \<open>b\<close> zero-extended (its signed reading is \<open>uint b\<close>, between
  0 and 255), and the code \<open>smalllong\<close> decodes to the long atom whose value is \<open>b\<close>
  sign-extended (its signed reading is \<open>sint b\<close>, negative exactly when \<open>b \<ge> 128\<close>).
\<close>

theorem smallint_zero_extends_smalllong_sign_extends:
  assumes "0 < size_b bytes" and "0 < size_a atoms"
  shows "pn_decode_value (Suc f) mem bytes atoms PNE_SMALLINT
           = Some (None, pn_bytes_ltrim bytes 1, atoms_put atoms (A_INT (ucast (mem (start_b bytes)))))
         \<and> sint (ucast (mem (start_b bytes)) :: 32 word) = uint (mem (start_b bytes))
         \<and> 0 \<le> sint (ucast (mem (start_b bytes)) :: 32 word)
         \<and> sint (ucast (mem (start_b bytes)) :: 32 word) \<le> 255
         \<and> pn_decode_value (Suc f) mem bytes atoms PNE_SMALLLONG
           = Some (None, pn_bytes_ltrim bytes 1, atoms_put atoms (A_LONG (scast (mem (start_b bytes)))))
         \<and> sint (scast (mem (start_b bytes)) :: 64 word) = sint (mem (start_b bytes))
         \<and> ((sint (scast (mem (start_b bytes)) :: 64 word) < 0) = (128 \<le> mem (start_b bytes)))"
proof -
  let ?b = "mem (start_b bytes)"
  have "uint ?b < 2 ^ 8" using uint_bounded[of ?b] by simp
  then have le: "uint ?b \<le> 255" by simp
  have s: "sint (scast ?b :: 64 word) = sint ?b"
    by (simp add: sint_up_scast is_up)
  show ?thesis
    using assms le
    by (simp add: pn_decode_value_head_def pn_decode_value_leaf_def pn_i_bytes_readf8_def
        sint_ucast_8_32 s sint_neg_8)
qed

theorem smallint_zero_extends_smalllong_sign_extends_witness:
  "pn_decode_value 1 (\<lambda>a. 0xFF) \<lparr>size_b = 1, start_b = 0\<rparr> \<lparr>size_a = 1, out_a = []\<rparr> PNE_SMALLINT
     = Some (None, \<lparr>size_b = 0, start_b = 1\<rparr>, \<lparr>size_a = 0, out_a = [A_INT 255]\<rparr>)
   \<and> pn_decode_value 1 (\<lambda>a. 0xFF) \<lparr>size_b = 1, start_b = 0\<rparr> \<lparr>size_a = 1, out_a = []\<rparr> PNE_SMALLLONG
     = Some (None, \<lparr>size_b = 0, start_b = 1\<rparr>, \<lparr>size_a = 0, out_a = [A_LONG (- 1)]\<rparr>)"
  using smallint_zero_extends_smalllong_sign_extends
          [of "\<lparr>size_b = 1, start_b = 0\<rparr>" "\<lparr>size_a = 1, out_a = []\<rparr>" 0 "\<lambda>a. 0xFF"]
  by (simp add: pn_bytes_ltrim_def atoms_put_def)

subsection \<open>Compact codes\<close>

lemma length_le_bytes [simp]: "length (le_bytes n v) = n"
  by (induction n arbitrary: v) simp_all

lemma le_bytes_numeral:
  "le_bytes (numeral k) v = ucast v # le_bytes (pred_numeral k) (drop_bit 8 v)"
  by (simp add: numeral_eq_Suc)


lemma le_word_le_bytes: "le_word (le_bytes n v) = (take_bit (8 * n) v :: 'a::len word)"
proof (induction n arbitrary: v)
  case 0
  then show ?case by simp
next
  case (Suc n)
  show ?case
  proof (rule bit_word_eqI)
    fix i assume "i < LENGTH('a)"
    then show "bit (le_word (le_bytes (Suc n) v) :: 'a word) i = bit (take_bit (8 * Suc n) v) i"
      by (auto simp add: Suc bit_simps)
  qed
qed

lemma le_word_stored:
  "LENGTH('a::len) \<le> 8 * n \<Longrightarrow> le_word (le_bytes n (v :: 'a word)) = v"
  by (simp add: le_word_le_bytes take_bit_word_eq_self)

lemma union_read_stored:
  "length (union_stored a) = w \<Longrightarrow> union_read a stale w = union_stored a"
  by (simp add: union_read_def)

lemma as_8_stored [simp]:
  "le_word (union_read (A_BOOL b) stale (Suc 0)) = (if b then 1 else 0 :: 8 word)"
  "le_word (union_read (A_UBYTE v) stale (Suc 0)) = v"
  "le_word (union_read (A_BYTE v) stale (Suc 0)) = v"
  by (simp_all add: union_read_def)

lemma as_16_stored [simp]:
  "le_word (union_read (A_USHORT v) stale 2) = v"
  "le_word (union_read (A_SHORT v) stale 2) = v"
  by (simp_all add: union_read_stored le_word_stored)

lemma as_32_stored [simp]:
  "le_word (union_read (A_UINT v) stale 4) = v"
  "le_word (union_read (A_INT v) stale 4) = v"
  "le_word (union_read (A_CHAR v) stale 4) = v"
  "le_word (union_read (A_FLOAT v) stale 4) = v"
  "le_word (union_read (A_DECIMAL32 v) stale 4) = v"
  by (simp_all add: union_read_stored le_word_stored)

lemma as_64_stored [simp]:
  "le_word (union_read (A_ULONG v) stale 8) = v"
  "le_word (union_read (A_LONG v) stale 8) = v"
  "le_word (union_read (A_TIMESTAMP v) stale 8) = v"
  "le_word (union_read (A_DOUBLE v) stale 8) = v"
  "le_word (union_read (A_DECIMAL64 v) stale 8) = v"
  by (simp_all add: union_read_stored le_word_stored)

lemma ucast_and_FF [simp]: "(ucast (0xFF AND (x :: 'a::len word)) :: 8 word) = ucast x"
proof -
  have m: "(0xFF :: 'a word) = mask 8" by (simp add: mask_eq_exp_minus_1)
  show ?thesis
    unfolding m by (rule bit_word_eqI) (auto simp add: bit_simps dest: bit_imp_le_length)
qed




lemma be_bytes_2: "be_bytes 2 (v :: 16 word) = [ucast (drop_bit 8 v), ucast v]"
  by (simp add: be_bytes_def le_bytes_numeral)



lemma ltrim_fields [simp]:
  "start_b (pn_bytes_ltrim bytes n) = start_b bytes + min n (size_b bytes)"
  "size_b (pn_bytes_ltrim bytes n) = size_b bytes - n"
  by (simp_all add: pn_bytes_ltrim_def Let_def min_def)







lemma mem_read_Suc2: "mem_read m a (Suc (Suc n)) = m a # m (Suc a) # mem_read m (Suc (Suc a)) n"
  by simp








lemma writef8_result:
  assumes "1 \<le> size_b b"
  shows "fst (pn_i_bytes_writef8 m b v) = None"
    and "snd (snd (pn_i_bytes_writef8 m b v)) = pn_bytes_ltrim b 1"
    and "mem_read (fst (snd (pn_i_bytes_writef8 m b v))) (start_b b) 1 = [v]"
    and "\<And>a. a < start_b b \<Longrightarrow> fst (snd (pn_i_bytes_writef8 m b v)) a = m a"
  using assms by (simp_all add: pn_i_bytes_writef8_def)
















text \<open>Inside an array.\<close>

lemma type2code_simps:
  "pn_type2code (Some PN_BOOL) = Inr PNE_BOOLEAN" "pn_type2code (Some PN_UINT) = Inr PNE_UINT"
  "pn_type2code (Some PN_ULONG) = Inr PNE_ULONG" "pn_type2code (Some PN_STRING) = Inr PNE_STR32_UTF8"
  by simp_all
















subsection \<open>Accessors\<close>

text \<open>
  Each accessor in terms of the cursor field \<open>current\<close> and the node array: with the cursor
  on the node \<open>current d\<close>, the atom read is that of \<open>nodes d ! (current d - 1)\<close>.
\<close>

lemma get_bool_spec:
  "(current d \<noteq> 0 \<and> atom_n (nodes d ! (current d - 1)) = A_BOOL v \<longrightarrow> pn_data_get_bool d = v)
   \<and> (current d = 0 \<or> atom_type (atom_n (nodes d ! (current d - 1))) \<noteq> PN_BOOL
        \<longrightarrow> pn_data_get_bool d = False)"
  by (cases "atom_n (nodes d ! (current d - 1))")
    (simp_all add: pn_data_get_bool_def pn_data_current_def pn_data_node_def)

lemma get_ubyte_spec:
  "(current d \<noteq> 0 \<and> atom_n (nodes d ! (current d - 1)) = A_UBYTE v \<longrightarrow> pn_data_get_ubyte d = v)
   \<and> (current d = 0 \<or> atom_type (atom_n (nodes d ! (current d - 1))) \<noteq> PN_UBYTE
        \<longrightarrow> pn_data_get_ubyte d = 0)"
  by (cases "atom_n (nodes d ! (current d - 1))")
    (simp_all add: pn_data_get_ubyte_def pn_data_current_def pn_data_node_def)

lemma get_byte_spec:
  "(current d \<noteq> 0 \<and> atom_n (nodes d ! (current d - 1)) = A_BYTE v \<longrightarrow> pn_data_get_byte d = v)
   \<and> (current d = 0 \<or> atom_type (atom_n (nodes d ! (current d - 1))) \<noteq> PN_BYTE
        \<longrightarrow> pn_data_get_byte d = 0)"
  by (cases "atom_n (nodes d ! (current d - 1))")
    (simp_all add: pn_data_get_byte_def pn_data_current_def pn_data_node_def)

lemma get_ushort_spec:
  "(current d \<noteq> 0 \<and> atom_n (nodes d ! (current d - 1)) = A_USHORT v \<longrightarrow> pn_data_get_ushort d = v)
   \<and> (current d = 0 \<or> atom_type (atom_n (nodes d ! (current d - 1))) \<noteq> PN_USHORT
        \<longrightarrow> pn_data_get_ushort d = 0)"
  by (cases "atom_n (nodes d ! (current d - 1))")
    (simp_all add: pn_data_get_ushort_def pn_data_current_def pn_data_node_def)

lemma get_short_spec:
  "(current d \<noteq> 0 \<and> atom_n (nodes d ! (current d - 1)) = A_SHORT v \<longrightarrow> pn_data_get_short d = v)
   \<and> (current d = 0 \<or> atom_type (atom_n (nodes d ! (current d - 1))) \<noteq> PN_SHORT
        \<longrightarrow> pn_data_get_short d = 0)"
  by (cases "atom_n (nodes d ! (current d - 1))")
    (simp_all add: pn_data_get_short_def pn_data_current_def pn_data_node_def)

lemma get_uint_spec:
  "(current d \<noteq> 0 \<and> atom_n (nodes d ! (current d - 1)) = A_UINT v \<longrightarrow> pn_data_get_uint d = v)
   \<and> (current d = 0 \<or> atom_type (atom_n (nodes d ! (current d - 1))) \<noteq> PN_UINT
        \<longrightarrow> pn_data_get_uint d = 0)"
  by (cases "atom_n (nodes d ! (current d - 1))")
    (simp_all add: pn_data_get_uint_def pn_data_current_def pn_data_node_def)

lemma get_int_spec:
  "(current d \<noteq> 0 \<and> atom_n (nodes d ! (current d - 1)) = A_INT v \<longrightarrow> pn_data_get_int d = v)
   \<and> (current d = 0 \<or> atom_type (atom_n (nodes d ! (current d - 1))) \<noteq> PN_INT
        \<longrightarrow> pn_data_get_int d = 0)"
  by (cases "atom_n (nodes d ! (current d - 1))")
    (simp_all add: pn_data_get_int_def pn_data_current_def pn_data_node_def)

lemma get_char_spec:
  "(current d \<noteq> 0 \<and> atom_n (nodes d ! (current d - 1)) = A_CHAR v \<longrightarrow> pn_data_get_char d = v)
   \<and> (current d = 0 \<or> atom_type (atom_n (nodes d ! (current d - 1))) \<noteq> PN_CHAR
        \<longrightarrow> pn_data_get_char d = 0)"
  by (cases "atom_n (nodes d ! (current d - 1))")
    (simp_all add: pn_data_get_char_def pn_data_current_def pn_data_node_def)

lemma get_ulong_spec:
  "(current d \<noteq> 0 \<and> atom_n (nodes d ! (current d - 1)) = A_ULONG v \<longrightarrow> pn_data_get_ulong d = v)
   \<and> (current d = 0 \<or> atom_type (atom_n (nodes d ! (current d - 1))) \<noteq> PN_ULONG
        \<longrightarrow> pn_data_get_ulong d = 0)"
  by (cases "atom_n (nodes d ! (current d - 1))")
    (simp_all add: pn_data_get_ulong_def pn_data_current_def pn_data_node_def)

lemma get_long_spec:
  "(current d \<noteq> 0 \<and> atom_n (nodes d ! (current d - 1)) = A_LONG v \<longrightarrow> pn_data_get_long d = v)
   \<and> (current d = 0 \<or> atom_type (atom_n (nodes d ! (current d - 1))) \<noteq> PN_LONG
        \<longrightarrow> pn_data_get_long d = 0)"
  by (cases "atom_n (nodes d ! (current d - 1))")
    (simp_all add: pn_data_get_long_def pn_data_current_def pn_data_node_def)

lemma get_timestamp_spec:
  "(current d \<noteq> 0 \<and> atom_n (nodes d ! (current d - 1)) = A_TIMESTAMP v \<longrightarrow> pn_data_get_timestamp d = v)
   \<and> (current d = 0 \<or> atom_type (atom_n (nodes d ! (current d - 1))) \<noteq> PN_TIMESTAMP
        \<longrightarrow> pn_data_get_timestamp d = 0)"
  by (cases "atom_n (nodes d ! (current d - 1))")
    (simp_all add: pn_data_get_timestamp_def pn_data_current_def pn_data_node_def)

lemma get_float_spec:
  "(current d \<noteq> 0 \<and> atom_n (nodes d ! (current d - 1)) = A_FLOAT v \<longrightarrow> pn_data_get_float d = v)
   \<and> (current d = 0 \<or> atom_type (atom_n (nodes d ! (current d - 1))) \<noteq> PN_FLOAT
        \<longrightarrow> pn_data_get_float d = 0)"
  by (cases "atom_n (nodes d ! (current d - 1))")
    (simp_all add: pn_data_get_float_def pn_data_current_def pn_data_node_def)

lemma get_double_spec:
  "(current d \<noteq> 0 \<and> atom_n (nodes d ! (current d - 1)) = A_DOUBLE v \<longrightarrow> pn_data_get_double d = v)
   \<and> (current d = 0 \<or> atom_type (atom_n (nodes d ! (current d - 1))) \<noteq> PN_DOUBLE
        \<longrightarrow> pn_data_get_double d = 0)"
  by (cases "atom_n (nodes d ! (current d - 1))")
    (simp_all add: pn_data_get_double_def pn_data_current_def pn_data_node_def)

lemma get_decimal32_spec:
  "(current d \<noteq> 0 \<and> atom_n (nodes d ! (current d - 1)) = A_DECIMAL32 v \<longrightarrow> pn_data_get_decimal32 d = v)
   \<and> (current d = 0 \<or> atom_type (atom_n (nodes d ! (current d - 1))) \<noteq> PN_DECIMAL32
        \<longrightarrow> pn_data_get_decimal32 d = 0)"
  by (cases "atom_n (nodes d ! (current d - 1))")
    (simp_all add: pn_data_get_decimal32_def pn_data_current_def pn_data_node_def)

lemma get_decimal64_spec:
  "(current d \<noteq> 0 \<and> atom_n (nodes d ! (current d - 1)) = A_DECIMAL64 v \<longrightarrow> pn_data_get_decimal64 d = v)
   \<and> (current d = 0 \<or> atom_type (atom_n (nodes d ! (current d - 1))) \<noteq> PN_DECIMAL64
        \<longrightarrow> pn_data_get_decimal64 d = 0)"
  by (cases "atom_n (nodes d ! (current d - 1))")
    (simp_all add: pn_data_get_decimal64_def pn_data_current_def pn_data_node_def)

lemma get_decimal128_spec:
  "(current d \<noteq> 0 \<and> atom_n (nodes d ! (current d - 1)) = A_DECIMAL128 v \<longrightarrow> pn_data_get_decimal128 d = v)
   \<and> (current d = 0 \<or> atom_type (atom_n (nodes d ! (current d - 1))) \<noteq> PN_DECIMAL128
        \<longrightarrow> pn_data_get_decimal128 d = replicate 16 0)"
  by (cases "atom_n (nodes d ! (current d - 1))")
    (simp_all add: pn_data_get_decimal128_def pn_data_current_def pn_data_node_def)

lemma get_uuid_spec:
  "(current d \<noteq> 0 \<and> atom_n (nodes d ! (current d - 1)) = A_UUID v \<longrightarrow> pn_data_get_uuid d = v)
   \<and> (current d = 0 \<or> atom_type (atom_n (nodes d ! (current d - 1))) \<noteq> PN_UUID
        \<longrightarrow> pn_data_get_uuid d = replicate 16 0)"
  by (cases "atom_n (nodes d ! (current d - 1))")
    (simp_all add: pn_data_get_uuid_def pn_data_current_def pn_data_node_def)

lemma get_binary_spec:
  "(current d \<noteq> 0 \<and> atom_n (nodes d ! (current d - 1)) = A_BINARY v \<longrightarrow> pn_data_get_binary d = v)
   \<and> (current d = 0 \<or> atom_type (atom_n (nodes d ! (current d - 1))) \<noteq> PN_BINARY
        \<longrightarrow> pn_data_get_binary d = [])"
  by (cases "atom_n (nodes d ! (current d - 1))")
    (simp_all add: pn_data_get_binary_def pn_data_current_def pn_data_node_def)

lemma get_string_spec:
  "(current d \<noteq> 0 \<and> atom_n (nodes d ! (current d - 1)) = A_STRING v \<longrightarrow> pn_data_get_string d = v)
   \<and> (current d = 0 \<or> atom_type (atom_n (nodes d ! (current d - 1))) \<noteq> PN_STRING
        \<longrightarrow> pn_data_get_string d = [])"
  by (cases "atom_n (nodes d ! (current d - 1))")
    (simp_all add: pn_data_get_string_def pn_data_current_def pn_data_node_def)

lemma get_symbol_spec:
  "(current d \<noteq> 0 \<and> atom_n (nodes d ! (current d - 1)) = A_SYMBOL v \<longrightarrow> pn_data_get_symbol d = v)
   \<and> (current d = 0 \<or> atom_type (atom_n (nodes d ! (current d - 1))) \<noteq> PN_SYMBOL
        \<longrightarrow> pn_data_get_symbol d = [])"
  by (cases "atom_n (nodes d ! (current d - 1))")
    (simp_all add: pn_data_get_symbol_def pn_data_current_def pn_data_node_def)

text \<open>
  C8. For each kind, the accessor returns the value stored in the node under the cursor
  (the node \<open>nodes d ! (current d - 1)\<close>, for a cursor \<open>current d\<close> other than 0) when that
  node holds an atom of the kind, and the zero of the kind (\<open>False\<close>, \<open>0\<close>, sixteen zero
  bytes, the empty span) when the cursor is 0 (no current node) or the node under it
  holds an atom of another kind. The accessors are functions of the tree that return the
  value alone: they have no tree to change.
\<close>

theorem accessors_return_value_or_zero:
  "(current d \<noteq> 0 \<and> atom_n (nodes d ! (current d - 1)) = A_BOOL v0 \<longrightarrow> pn_data_get_bool d = v0)
   \<and> (current d = 0 \<or> atom_type (atom_n (nodes d ! (current d - 1))) \<noteq> PN_BOOL
        \<longrightarrow> pn_data_get_bool d = False)
   \<and> (current d \<noteq> 0 \<and> atom_n (nodes d ! (current d - 1)) = A_UBYTE v1 \<longrightarrow> pn_data_get_ubyte d = v1)
   \<and> (current d = 0 \<or> atom_type (atom_n (nodes d ! (current d - 1))) \<noteq> PN_UBYTE
        \<longrightarrow> pn_data_get_ubyte d = 0)
   \<and> (current d \<noteq> 0 \<and> atom_n (nodes d ! (current d - 1)) = A_BYTE v2 \<longrightarrow> pn_data_get_byte d = v2)
   \<and> (current d = 0 \<or> atom_type (atom_n (nodes d ! (current d - 1))) \<noteq> PN_BYTE
        \<longrightarrow> pn_data_get_byte d = 0)
   \<and> (current d \<noteq> 0 \<and> atom_n (nodes d ! (current d - 1)) = A_USHORT v3 \<longrightarrow> pn_data_get_ushort d = v3)
   \<and> (current d = 0 \<or> atom_type (atom_n (nodes d ! (current d - 1))) \<noteq> PN_USHORT
        \<longrightarrow> pn_data_get_ushort d = 0)
   \<and> (current d \<noteq> 0 \<and> atom_n (nodes d ! (current d - 1)) = A_SHORT v4 \<longrightarrow> pn_data_get_short d = v4)
   \<and> (current d = 0 \<or> atom_type (atom_n (nodes d ! (current d - 1))) \<noteq> PN_SHORT
        \<longrightarrow> pn_data_get_short d = 0)
   \<and> (current d \<noteq> 0 \<and> atom_n (nodes d ! (current d - 1)) = A_UINT v5 \<longrightarrow> pn_data_get_uint d = v5)
   \<and> (current d = 0 \<or> atom_type (atom_n (nodes d ! (current d - 1))) \<noteq> PN_UINT
        \<longrightarrow> pn_data_get_uint d = 0)
   \<and> (current d \<noteq> 0 \<and> atom_n (nodes d ! (current d - 1)) = A_INT v6 \<longrightarrow> pn_data_get_int d = v6)
   \<and> (current d = 0 \<or> atom_type (atom_n (nodes d ! (current d - 1))) \<noteq> PN_INT
        \<longrightarrow> pn_data_get_int d = 0)
   \<and> (current d \<noteq> 0 \<and> atom_n (nodes d ! (current d - 1)) = A_CHAR v7 \<longrightarrow> pn_data_get_char d = v7)
   \<and> (current d = 0 \<or> atom_type (atom_n (nodes d ! (current d - 1))) \<noteq> PN_CHAR
        \<longrightarrow> pn_data_get_char d = 0)
   \<and> (current d \<noteq> 0 \<and> atom_n (nodes d ! (current d - 1)) = A_ULONG v8 \<longrightarrow> pn_data_get_ulong d = v8)
   \<and> (current d = 0 \<or> atom_type (atom_n (nodes d ! (current d - 1))) \<noteq> PN_ULONG
        \<longrightarrow> pn_data_get_ulong d = 0)
   \<and> (current d \<noteq> 0 \<and> atom_n (nodes d ! (current d - 1)) = A_LONG v9 \<longrightarrow> pn_data_get_long d = v9)
   \<and> (current d = 0 \<or> atom_type (atom_n (nodes d ! (current d - 1))) \<noteq> PN_LONG
        \<longrightarrow> pn_data_get_long d = 0)
   \<and> (current d \<noteq> 0 \<and> atom_n (nodes d ! (current d - 1)) = A_TIMESTAMP v10 \<longrightarrow> pn_data_get_timestamp d = v10)
   \<and> (current d = 0 \<or> atom_type (atom_n (nodes d ! (current d - 1))) \<noteq> PN_TIMESTAMP
        \<longrightarrow> pn_data_get_timestamp d = 0)
   \<and> (current d \<noteq> 0 \<and> atom_n (nodes d ! (current d - 1)) = A_FLOAT v11 \<longrightarrow> pn_data_get_float d = v11)
   \<and> (current d = 0 \<or> atom_type (atom_n (nodes d ! (current d - 1))) \<noteq> PN_FLOAT
        \<longrightarrow> pn_data_get_float d = 0)
   \<and> (current d \<noteq> 0 \<and> atom_n (nodes d ! (current d - 1)) = A_DOUBLE v12 \<longrightarrow> pn_data_get_double d = v12)
   \<and> (current d = 0 \<or> atom_type (atom_n (nodes d ! (current d - 1))) \<noteq> PN_DOUBLE
        \<longrightarrow> pn_data_get_double d = 0)
   \<and> (current d \<noteq> 0 \<and> atom_n (nodes d ! (current d - 1)) = A_DECIMAL32 v13 \<longrightarrow> pn_data_get_decimal32 d = v13)
   \<and> (current d = 0 \<or> atom_type (atom_n (nodes d ! (current d - 1))) \<noteq> PN_DECIMAL32
        \<longrightarrow> pn_data_get_decimal32 d = 0)
   \<and> (current d \<noteq> 0 \<and> atom_n (nodes d ! (current d - 1)) = A_DECIMAL64 v14 \<longrightarrow> pn_data_get_decimal64 d = v14)
   \<and> (current d = 0 \<or> atom_type (atom_n (nodes d ! (current d - 1))) \<noteq> PN_DECIMAL64
        \<longrightarrow> pn_data_get_decimal64 d = 0)
   \<and> (current d \<noteq> 0 \<and> atom_n (nodes d ! (current d - 1)) = A_DECIMAL128 v15 \<longrightarrow> pn_data_get_decimal128 d = v15)
   \<and> (current d = 0 \<or> atom_type (atom_n (nodes d ! (current d - 1))) \<noteq> PN_DECIMAL128
        \<longrightarrow> pn_data_get_decimal128 d = replicate 16 0)
   \<and> (current d \<noteq> 0 \<and> atom_n (nodes d ! (current d - 1)) = A_UUID v16 \<longrightarrow> pn_data_get_uuid d = v16)
   \<and> (current d = 0 \<or> atom_type (atom_n (nodes d ! (current d - 1))) \<noteq> PN_UUID
        \<longrightarrow> pn_data_get_uuid d = replicate 16 0)
   \<and> (current d \<noteq> 0 \<and> atom_n (nodes d ! (current d - 1)) = A_BINARY v17 \<longrightarrow> pn_data_get_binary d = v17)
   \<and> (current d = 0 \<or> atom_type (atom_n (nodes d ! (current d - 1))) \<noteq> PN_BINARY
        \<longrightarrow> pn_data_get_binary d = [])
   \<and> (current d \<noteq> 0 \<and> atom_n (nodes d ! (current d - 1)) = A_STRING v18 \<longrightarrow> pn_data_get_string d = v18)
   \<and> (current d = 0 \<or> atom_type (atom_n (nodes d ! (current d - 1))) \<noteq> PN_STRING
        \<longrightarrow> pn_data_get_string d = [])
   \<and> (current d \<noteq> 0 \<and> atom_n (nodes d ! (current d - 1)) = A_SYMBOL v19 \<longrightarrow> pn_data_get_symbol d = v19)
   \<and> (current d = 0 \<or> atom_type (atom_n (nodes d ! (current d - 1))) \<noteq> PN_SYMBOL
        \<longrightarrow> pn_data_get_symbol d = [])"
  by (intro conjI get_bool_spec[THEN conjunct1] get_bool_spec[THEN conjunct2] get_ubyte_spec[THEN conjunct1] get_ubyte_spec[THEN conjunct2] get_byte_spec[THEN conjunct1] get_byte_spec[THEN conjunct2] get_ushort_spec[THEN conjunct1] get_ushort_spec[THEN conjunct2] get_short_spec[THEN conjunct1] get_short_spec[THEN conjunct2] get_uint_spec[THEN conjunct1] get_uint_spec[THEN conjunct2] get_int_spec[THEN conjunct1] get_int_spec[THEN conjunct2] get_char_spec[THEN conjunct1] get_char_spec[THEN conjunct2] get_ulong_spec[THEN conjunct1] get_ulong_spec[THEN conjunct2] get_long_spec[THEN conjunct1] get_long_spec[THEN conjunct2] get_timestamp_spec[THEN conjunct1] get_timestamp_spec[THEN conjunct2] get_float_spec[THEN conjunct1] get_float_spec[THEN conjunct2] get_double_spec[THEN conjunct1] get_double_spec[THEN conjunct2] get_decimal32_spec[THEN conjunct1] get_decimal32_spec[THEN conjunct2] get_decimal64_spec[THEN conjunct1] get_decimal64_spec[THEN conjunct2] get_decimal128_spec[THEN conjunct1] get_decimal128_spec[THEN conjunct2] get_uuid_spec[THEN conjunct1] get_uuid_spec[THEN conjunct2] get_binary_spec[THEN conjunct1] get_binary_spec[THEN conjunct2] get_string_spec[THEN conjunct1] get_string_spec[THEN conjunct2] get_symbol_spec[THEN conjunct1] get_symbol_spec[THEN conjunct2])

text \<open>
  The theorem at a tree of two nodes, a bool and a uint 7, with the cursor on the second
  and then moved back onto the first, and at the empty tree.
\<close>

lemma bool_uint_tree:
  "current (pn_data_put_uint (pn_data_put_bool (pn_data 2) True) 7) = 2
   \<and> atom_n (nodes (pn_data_put_uint (pn_data_put_bool (pn_data 2) True) 7) ! (2 - 1)) = A_UINT 7
   \<and> current (snd (pn_data_prev (pn_data_put_uint (pn_data_put_bool (pn_data 2) True) 7))) = 1
   \<and> atom_n (nodes (snd (pn_data_prev (pn_data_put_uint (pn_data_put_bool (pn_data 2) True) 7)))
               ! (1 - 1)) = A_BOOL True
   \<and> current (pn_data 1) = 0"
  by code_simp

theorem accessors_return_value_or_zero_witness:
  "pn_data_get_uint (pn_data_put_uint (pn_data_put_bool (pn_data 2) True) 7) = 7
   \<and> pn_data_get_bool (pn_data_put_uint (pn_data_put_bool (pn_data 2) True) 7) = False
   \<and> pn_data_get_string (pn_data_put_uint (pn_data_put_bool (pn_data 2) True) 7) = []
   \<and> pn_data_get_bool (snd (pn_data_prev (pn_data_put_uint (pn_data_put_bool (pn_data 2) True) 7)))
       = True
   \<and> pn_data_get_uint (snd (pn_data_prev (pn_data_put_uint (pn_data_put_bool (pn_data 2) True) 7)))
       = 0
   \<and> pn_data_get_bool (pn_data 1) = False"
  using accessors_return_value_or_zero[of "pn_data_put_uint (pn_data_put_bool (pn_data 2) True) 7"
      _ _ _ _ _ 7]
    accessors_return_value_or_zero[of
      "snd (pn_data_prev (pn_data_put_uint (pn_data_put_bool (pn_data 2) True) 7))" True]
    accessors_return_value_or_zero[of "pn_data 1"]
    bool_uint_tree
  by simp

subsection \<open>The return value of decode\<close>

lemma advanced_refl [simp]: "advanced b b"
  by (simp add: advanced_def)

lemma advanced_trans: "advanced a b \<Longrightarrow> advanced b c \<Longrightarrow> advanced a c"
  by (simp add: advanced_def)

lemma advanced_ltrim [simp]: "advanced b (pn_bytes_ltrim b n)"
  by (simp add: advanced_def pn_bytes_ltrim_def Let_def)

lemma advanced_ltrim2 [simp]: "advanced b (pn_bytes_ltrim (pn_bytes_ltrim b n) m)"
  by (rule advanced_trans[OF advanced_ltrim advanced_ltrim])

lemma advanced_ltrim3 [simp]:
  "advanced b (pn_bytes_ltrim (pn_bytes_ltrim (pn_bytes_ltrim b n) m) k)"
  by (rule advanced_trans[OF advanced_ltrim2 advanced_ltrim])

lemma advanced_ltrim4 [simp]:
  "advanced b (pn_bytes_ltrim (pn_bytes_ltrim (pn_bytes_ltrim (pn_bytes_ltrim b n) m) k) j)"
  by (rule advanced_trans[OF advanced_ltrim3 advanced_ltrim])

lemma leaf_advanced:
  "pn_decode_value_leaf mem bytes code = Some (r, bytes1) \<Longrightarrow> advanced bytes bytes1"
  unfolding pn_decode_value_leaf_def
  by (auto simp add: pn_i_bytes_readf8_def pn_i_bytes_readf16_def pn_i_bytes_readf32_def
      pn_i_bytes_readf64_def Let_def split_def
      split: if_splits sum.splits prod.splits)


lemma header_advanced:
  "decode_compound_header mem bytes code = (r, bytes1) \<Longrightarrow> advanced bytes bytes1"
  unfolding decode_compound_header_def
  by (auto simp add: pn_i_bytes_readf8_def pn_i_bytes_readf32_def Let_def split_def
      split: if_splits)

lemma head_advanced:
  "(pn_decode_value_head mem bytes atoms code = Done e bytes1 atoms1 \<longrightarrow> advanced bytes bytes1)
   \<and> (pn_decode_value_head mem bytes atoms code = Array_Body n bytes1 atoms1
        \<longrightarrow> advanced bytes bytes1)
   \<and> (pn_decode_value_head mem bytes atoms code = Compound_Body n bytes1 atoms1
        \<longrightarrow> advanced bytes bytes1)"
proof (cases "size_a atoms = 0")
  case True
  then show ?thesis by (simp add: pn_decode_value_head_def)
next
  case False
  show ?thesis
  proof (cases "pn_decode_value_leaf mem bytes code")
    case (Some rb)
    obtain r b where rb: "rb = (r, b)" by (cases rb)
    have "advanced bytes b" using leaf_advanced Some rb by simp
    then show ?thesis
      using False Some rb by (cases r) (auto simp add: pn_decode_value_head_def)
  next
    case None
    obtain r b where h: "decode_compound_header mem bytes code = (r, b)"
      by (cases "decode_compound_header mem bytes code")
    have "advanced bytes b" using header_advanced[OF h] .
    then show ?thesis
      using False None h
      by (cases r) (auto simp add: pn_decode_value_head_def split: if_splits prod.splits)
  qed
qed

lemma decoders_advance:
  "(\<forall>r b a. pn_decode_type f mem bytes atoms = Some (r, b, a) \<longrightarrow> advanced bytes b)"
  "(\<forall>e b a. pn_decode_value f mem bytes atoms code = Some (e, b, a) \<longrightarrow> advanced bytes b)"
  "(\<forall>e b a. pn_decode_atom f mem bytes atoms = Some (e, b, a) \<longrightarrow> advanced bytes b)"
  "(\<forall>e b a. decode_array_elements f n mem bytes atoms code = Some (e, b, a) \<longrightarrow> advanced bytes b)"
  "(\<forall>e b a. decode_compound_elements f n mem bytes atoms = Some (e, b, a) \<longrightarrow> advanced bytes b)"
proof (induction f mem bytes atoms and f mem bytes atoms code and f mem bytes atoms
    and f n mem bytes atoms code and f n mem bytes atoms
    rule: pn_decode_type_pn_decode_value_pn_decode_atom_decode_array_elements_decode_compound_elements.induct)
  case (1 mem bytes atoms)
  show ?case by simp
next
  case (2 f mem bytes atoms)
  show ?case
  proof (intro allI impI)
    fix r b a
    assume eq: "pn_decode_type (Suc f) mem bytes atoms = Some (r, b, a)"
    show "advanced bytes b"
    proof (cases "size_b bytes = 0 \<or> size_a atoms = 0 \<or> mem (start_b bytes) \<noteq> PNE_DESCRIPTOR")
      case True
      then show ?thesis using eq by (auto split: if_splits)
    next
      case False
      then have c: "size_b bytes \<noteq> 0" "size_a atoms \<noteq> 0" "\<not> mem (start_b bytes) \<noteq> PNE_DESCRIPTOR"
        by simp_all
      obtain e1 b1 a1 where
        da: "pn_decode_atom f mem (pn_bytes_ltrim bytes 1) (atoms_put atoms A_DESCRIPTOR)
              = Some (e1, b1, a1)"
        using eq c by (cases "pn_decode_atom f mem (pn_bytes_ltrim bytes 1) (atoms_put atoms A_DESCRIPTOR)")
          auto
      have "advanced (pn_bytes_ltrim bytes 1) b1"
        using "2.IH"(1)[OF c] da by simp
      then have adv1: "advanced bytes b1"
        by (rule advanced_trans[OF advanced_ltrim])
      show ?thesis
      proof (cases e1)
        case (Some e)
        then show ?thesis using eq c da adv1 by simp
      next
        case None
        then have "pn_decode_type f mem b1 a1 = Some (r, b, a)" using eq c da by simp
        moreover have "\<forall>r b a. pn_decode_type f mem b1 a1 = Some (r, b, a) \<longrightarrow> advanced b1 b"
          by (rule "2.IH"(2)[OF c da _ None]) simp_all
        ultimately have "advanced b1 b" by simp
        then show ?thesis using adv1 advanced_trans by blast
      qed
    qed
  qed
next
  case (3 mem bytes atoms code)
  show ?case by simp
next
  case (4 f mem bytes atoms code)
  show ?case
  proof (intro allI impI)
    fix e b a
    assume eq: "pn_decode_value (Suc f) mem bytes atoms code = Some (e, b, a)"
    show "advanced bytes b"
    proof (cases "pn_decode_value_head mem bytes atoms code")
      case (Done e1 b1 a1)
      then show ?thesis using eq head_advanced[of mem bytes atoms code e1 b1 a1] by simp
    next
      case (Array_Body cnt b1 a1)
      then have adv1: "advanced bytes b1" using head_advanced[of mem bytes atoms code _ b1 a1 cnt] by simp
      obtain r2 b2 a2 where dt: "pn_decode_type f mem b1 a1 = Some (r2, b2, a2)"
        using eq Array_Body by (cases "pn_decode_type f mem b1 a1") auto
      have "advanced b1 b2" using "4.IH"(1)[OF Array_Body] dt by simp
      then have adv2: "advanced bytes b2" using adv1 advanced_trans by blast
      show ?thesis
      proof (cases r2)
        case (Inl err)
        then show ?thesis using eq Array_Body dt adv2 by simp
      next
        case (Inr acode)
        show ?thesis
        proof (cases "array_type_atom a2 acode")
          case (Inl err)
          then show ?thesis using eq Array_Body dt Inr adv2 by simp
        next
          case ata: (Inr a3)
          then have "decode_array_elements f cnt mem b2 a3 acode = Some (e, b, a)"
            using eq Array_Body dt Inr by simp
          moreover have "\<forall>e b a. decode_array_elements f cnt mem b2 a3 acode = Some (e, b, a)
              \<longrightarrow> advanced b2 b"
            by (rule "4.IH"(2)[OF Array_Body dt _ Inr _ ata]) simp_all
          ultimately have "advanced b2 b" by simp
          then show ?thesis using adv2 advanced_trans by blast
        qed
      qed
    next
      case (Compound_Body cnt b1 a1)
      then have adv1: "advanced bytes b1" using head_advanced[of mem bytes atoms code _ b1 a1 cnt] by simp
      have "decode_compound_elements f cnt mem b1 a1 = Some (e, b, a)"
        using eq Compound_Body by simp
      then have "advanced b1 b" using "4.IH"(3)[OF Compound_Body] by simp
      then show ?thesis using adv1 advanced_trans by blast
    qed
  qed
next
  case (5 mem bytes atoms)
  show ?case by simp
next
  case (6 f mem bytes atoms)
  show ?case
  proof (intro allI impI)
    fix e b a
    assume eq: "pn_decode_atom (Suc f) mem bytes atoms = Some (e, b, a)"
    obtain r1 b1 a1 where dt: "pn_decode_type f mem bytes atoms = Some (r1, b1, a1)"
      using eq by (cases "pn_decode_type f mem bytes atoms") auto
    have adv1: "advanced bytes b1" using "6.IH"(1) dt by simp
    show "advanced bytes b"
    proof (cases r1)
      case (Inl err)
      then show ?thesis using eq dt adv1 by simp
    next
      case (Inr c)
      then have "pn_decode_value f mem b1 a1 c = Some (e, b, a)" using eq dt by simp
      moreover have "\<forall>e b a. pn_decode_value f mem b1 a1 c = Some (e, b, a) \<longrightarrow> advanced b1 b"
        by (rule "6.IH"(2)[OF dt _ Inr]) simp_all
      ultimately have "advanced b1 b" by simp
      then show ?thesis using adv1 advanced_trans by blast
    qed
  qed
next
  case (7 count mem bytes atoms acode)
  show ?case by simp
next
  case (8 f count mem bytes atoms acode)
  show ?case
  proof (intro allI impI)
    fix e b a
    assume eq: "decode_array_elements (Suc f) count mem bytes atoms acode = Some (e, b, a)"
    show "advanced bytes b"
    proof (cases "count = 0")
      case True
      then show ?thesis using eq by simp
    next
      case False
      obtain e1 b1 a1 where dv: "pn_decode_value f mem bytes atoms acode = Some (e1, b1, a1)"
        using eq False by (cases "pn_decode_value f mem bytes atoms acode") auto
      have adv1: "advanced bytes b1" using "8.IH"(1)[OF False] dv by simp
      show ?thesis
      proof (cases e1)
        case (Some err)
        then show ?thesis using eq False dv adv1 by simp
      next
        case None
        then have "decode_array_elements f (count - 1) mem b1 a1 acode = Some (e, b, a)"
          using eq False dv by simp
        moreover have "\<forall>e b a. decode_array_elements f (count - 1) mem b1 a1 acode = Some (e, b, a)
            \<longrightarrow> advanced b1 b"
          by (rule "8.IH"(2)[OF False dv _ None]) simp_all
        ultimately have "advanced b1 b" by simp
        then show ?thesis using adv1 advanced_trans by blast
      qed
    qed
  qed
next
  case (9 count mem bytes atoms)
  show ?case by simp
next
  case (10 f count mem bytes atoms)
  show ?case
  proof (intro allI impI)
    fix e b a
    assume eq: "decode_compound_elements (Suc f) count mem bytes atoms = Some (e, b, a)"
    show "advanced bytes b"
    proof (cases "count = 0")
      case True
      then show ?thesis using eq by simp
    next
      case False
      obtain e1 b1 a1 where dv: "pn_decode_atom f mem bytes atoms = Some (e1, b1, a1)"
        using eq False by (cases "pn_decode_atom f mem bytes atoms") auto
      have adv1: "advanced bytes b1" using "10.IH"(1)[OF False] dv by simp
      show ?thesis
      proof (cases e1)
        case (Some err)
        then show ?thesis using eq False dv adv1 by simp
      next
        case None
        then have "decode_compound_elements f (count - 1) mem b1 a1 = Some (e, b, a)"
          using eq False dv by simp
        moreover have "\<forall>e b a. decode_compound_elements f (count - 1) mem b1 a1 = Some (e, b, a)
            \<longrightarrow> advanced b1 b"
          by (rule "10.IH"(2)[OF False dv _ None]) simp_all
        ultimately have "advanced b1 b" by simp
        then show ?thesis using adv1 advanced_trans by blast
      qed
    qed
  qed
qed

lemma decode_one_overflow:
  "map_option fst (pn_decode_atom fuel mem bytes \<lparr>size_a = asize, out_a = []\<rparr>) = Some (Some e)
   \<Longrightarrow> pn_decode_one fuel mem bytes asize = Some (Inl e)"
  by (auto simp add: pn_decode_one_def split: option.splits)

lemma decode_one_success:
  "pn_decode_atom fuel mem bytes \<lparr>size_a = asize, out_a = []\<rparr> = Some (None, rest, atoms)
   \<Longrightarrow> pn_decode_one fuel mem bytes asize = Some (Inr (size_b bytes - size_b rest, out_a atoms))"
  by (simp add: pn_decode_one_def)

lemma decode_loop_retries:
  assumes "\<forall>i<k. map_option fst (pn_decode_atom fuel mem \<lparr>size_b = sz, start_b = bytes\<rparr>
                      \<lparr>size_a = asize * 2 ^ i, out_a = []\<rparr>) = Some (Some PN_OVERFLOW)"
    and "pn_decode_atom fuel mem \<lparr>size_b = sz, start_b = bytes\<rparr>
           \<lparr>size_a = asize * 2 ^ k, out_a = []\<rparr> = Some (None, rest, atoms)"
    and "pn_data_parse_atoms fuel d (out_a atoms) 0 (- 1) = Some (err, d1)"
  shows "pn_data_decode_loop (Suc (k + r)) fuel d mem bytes sz asize
           = Some (Inr (sz - size_b rest), d1)"
  using assms
proof (induction k arbitrary: asize)
  case 0
  then show ?case using decode_one_success[of fuel mem "\<lparr>size_b = sz, start_b = bytes\<rparr>" asize rest atoms]
    by simp
next
  case (Suc k)
  have "map_option fst (pn_decode_atom fuel mem \<lparr>size_b = sz, start_b = bytes\<rparr>
                      \<lparr>size_a = asize, out_a = []\<rparr>) = Some (Some PN_OVERFLOW)"
    using Suc.prems(1)[rule_format, of 0] by simp
  then have first: "pn_decode_one fuel mem \<lparr>size_b = sz, start_b = bytes\<rparr> asize = Some (Inl PN_OVERFLOW)"
    by (rule decode_one_overflow)
  have rest: "\<forall>i<k. map_option fst (pn_decode_atom fuel mem \<lparr>size_b = sz, start_b = bytes\<rparr>
                      \<lparr>size_a = asize * 2 * 2 ^ i, out_a = []\<rparr>) = Some (Some PN_OVERFLOW)"
  proof (intro allI impI)
    fix i assume "i < k"
    then show "map_option fst (pn_decode_atom fuel mem \<lparr>size_b = sz, start_b = bytes\<rparr>
                      \<lparr>size_a = asize * 2 * 2 ^ i, out_a = []\<rparr>) = Some (Some PN_OVERFLOW)"
      using Suc.prems(1)[rule_format, of "Suc i"] by (simp add: mult.assoc)
  qed
  have last: "pn_decode_atom fuel mem \<lparr>size_b = sz, start_b = bytes\<rparr>
           \<lparr>size_a = asize * 2 * 2 ^ k, out_a = []\<rparr> = Some (None, rest, atoms)"
    using Suc.prems(2) by (simp add: mult.assoc)
  show ?case
    using first Suc.IH[OF rest last Suc.prems(3)] by simp
qed

text \<open>
  C9. When the byte-level decode of one value (\<^verbatim>\<open>pn_decode_atom\<close> on the input, called by
  \<^verbatim>\<open>pn_decode_one\<close>) succeeds and leaves its cursor at \<open>rest\<close> (at the first size of the
  atom buffer, 64, or after \<open>k\<close> doublings that each overflowed), \<^verbatim>\<open>pn_data_decode\<close>
  returns the number of input bytes the decoder consumed: the distance from the start of
  the input to the decoder's cursor, which is also the drop of the remaining size, and is
  at most the size of the input. It does so whatever \<^verbatim>\<open>pn_data_parse_atoms\<close> returned:
  \<open>err\<close> may be any error. The tree is the one that \<^verbatim>\<open>pn_data_parse_atoms\<close> left.
\<close>

theorem decode_returns_consumed_whatever_parse_atoms_returns:
  assumes "\<forall>i<k. map_option fst (pn_decode_atom fuel mem \<lparr>size_b = sz, start_b = bytes\<rparr>
                      \<lparr>size_a = 64 * 2 ^ i, out_a = []\<rparr>) = Some (Some PN_OVERFLOW)"
    and "pn_decode_atom fuel mem \<lparr>size_b = sz, start_b = bytes\<rparr>
           \<lparr>size_a = 64 * 2 ^ k, out_a = []\<rparr> = Some (None, rest, atoms)"
    and "pn_data_parse_atoms fuel d (out_a atoms) 0 (- 1) = Some (err, d1)"
  shows "pn_data_decode (Suc (k + r)) fuel d mem bytes sz = Some (Inr (start_b rest - bytes), d1)
         \<and> start_b rest - bytes = sz - size_b rest
         \<and> bytes \<le> start_b rest \<and> start_b rest \<le> bytes + sz"
proof -
  have "advanced \<lparr>size_b = sz, start_b = bytes\<rparr> rest"
    using decoders_advance(3) assms(2) by blast
  then have adv: "bytes \<le> start_b rest" "start_b rest + size_b rest = bytes + sz"
    by (simp_all add: advanced_def)
  then have "start_b rest - bytes = sz - size_b rest" by simp
  moreover have "pn_data_decode (Suc (k + r)) fuel d mem bytes sz = Some (Inr (sz - size_b rest), d1)"
    unfolding pn_data_decode_def using decode_loop_retries[OF assms] .
  ultimately show ?thesis using adv by simp
qed

text \<open>
  An input of 9 bytes on which \<^verbatim>\<open>pn_data_parse_atoms\<close> fails after a successful decode
  of 8 of them: an empty \<open>array8\<close> whose element type carries two descriptors, followed by
  one more byte. The decoder stores a second descriptor marker where
  \<^verbatim>\<open>pn_data_parse_atoms\<close> requires the type reference.
\<close>

lemma nested_descriptor_array_decodes:
  "pn_decode_atom 10 (\<lambda>a. if a < 9 then [0xE0, 6, 0, 0, 0x40, 0, 0x40, 0x40, 0x40] ! a else 0)
     \<lparr>size_b = 9, start_b = 0\<rparr> \<lparr>size_a = 64 * 2 ^ 0, out_a = []\<rparr>
   = Some (None, \<lparr>size_b = 1, start_b = 8\<rparr>,
       \<lparr>size_a = 58,
        out_a = [A_ARRAY 0, A_DESCRIPTOR, A_NULL, A_DESCRIPTOR, A_NULL, A_TYPE (Some PN_NULL)]\<rparr>)"
  by code_simp

lemma nested_descriptor_array_parse_fails:
  "map_option fst (pn_data_parse_atoms 10 (pn_data 4)
      [A_ARRAY 0, A_DESCRIPTOR, A_NULL, A_DESCRIPTOR, A_NULL, A_TYPE (Some PN_NULL)] 0 (- 1))
   = Some (Inl PN_ERR)"
  by code_simp

theorem decode_returns_consumed_whatever_parse_atoms_returns_witness:
  "\<exists>d1. pn_data_parse_atoms 10 (pn_data 4)
           [A_ARRAY 0, A_DESCRIPTOR, A_NULL, A_DESCRIPTOR, A_NULL, A_TYPE (Some PN_NULL)] 0 (- 1)
         = Some (Inl PN_ERR, d1)
       \<and> pn_data_decode (Suc 0) 10 (pn_data 4)
           (\<lambda>a. if a < 9 then [0xE0, 6, 0, 0, 0x40, 0, 0x40, 0x40, 0x40] ! a else 0) 0 9
         = Some (Inr 8, d1)"
proof -
  obtain d1 where p: "pn_data_parse_atoms 10 (pn_data 4)
           [A_ARRAY 0, A_DESCRIPTOR, A_NULL, A_DESCRIPTOR, A_NULL, A_TYPE (Some PN_NULL)] 0 (- 1)
         = Some (Inl PN_ERR, d1)"
    using nested_descriptor_array_parse_fails by (auto simp add: map_option_case split: option.splits)
  have "pn_data_decode (Suc (0 + 0)) 10 (pn_data 4)
           (\<lambda>a. if a < 9 then [0xE0, 6, 0, 0, 0x40, 0, 0x40, 0x40, 0x40] ! a else 0) 0 9
         = Some (Inr (start_b \<lparr>size_b = 1, start_b = 8\<rparr> - 0), d1)"
    using decode_returns_consumed_whatever_parse_atoms_returns
          [where k = 0 and r = 0 and d = "pn_data 4" and err = "Inl PN_ERR" and ?d1.0 = d1,
           OF _ nested_descriptor_array_decodes] p
    by simp
  then show ?thesis using p by auto
qed

text \<open>
  Two more inputs: an empty array with an element code that \<^verbatim>\<open>pn_code2type\<close> does not
  know decodes (4 bytes, with a type reference that is no member of \<^verbatim>\<open>pn_type_t\<close>); of
  three null values only the first is decoded, and 1 is returned.
\<close>

lemma unknown_array_code_decodes:
  "pn_decode_atom 10 (\<lambda>a. if a < 4 then [0xE0, 2, 0, 0xFF] ! a else 0)
     \<lparr>size_b = 4, start_b = 0\<rparr> \<lparr>size_a = 64 * 2 ^ 0, out_a = []\<rparr>
   = Some (None, \<lparr>size_b = 0, start_b = 4\<rparr>, \<lparr>size_a = 62, out_a = [A_ARRAY 0, A_TYPE None]\<rparr>)"
  by code_simp

lemma first_of_three_nulls:
  "map_option fst (pn_data_decode (Suc 0) 10 (pn_data 4) (\<lambda>a. 0x40) 0 3) = Some (Inr 1)"
  by code_simp

subsection \<open>Scan suspension\<close>

lemma scan_descriptor_mismatch:
  assumes "resume_count_s st = 0"
    and "pn_scan_next f (data_s st) False = Some (found, type, d1)"
    and "\<not> (found \<and> type = Some PN_DESCRIPTOR)"
  shows "vscan_code f st (CHR ''D'') c
           = Some (Inr (st\<lparr>data_s := d1, resume_count_s := 2, count_level_s := level_s st\<rparr>, False))"
  using assms by (auto simp add: vscan_code_def resume_dec_def Let_def)

lemma scan_array_mismatch:
  assumes "resume_count_s st = 0"
    and "pn_scan_next f (data_s st) False = Some (found, type, d1)"
    and "\<not> (found \<and> type = Some PN_ARRAY)"
  shows "vscan_code f st (CHR ''@'') c
           = Some (Inr (st\<lparr>data_s := d1, resume_count_s := 2, count_level_s := level_s st\<rparr>, False))"
  using assms by (auto simp add: vscan_code_def resume_dec_def Let_def)

lemma scan_list_mismatch:
  assumes "resume_count_s st = 0" and "\<not> at_s st"
    and "pn_scan_next f (data_s st) False = Some (found, type, d1)"
    and "\<not> (found \<and> type = Some PN_LIST)"
  shows "vscan_code f st (CHR ''['') c
           = Some (Inr (st\<lparr>data_s := d1, resume_count_s := 1, count_level_s := level_s st,
                           level_s := level_s st + 1\<rparr>, False))"
  using assms by (auto simp add: vscan_code_def resume_dec_def Let_def)

lemma scan_map_mismatch:
  assumes "resume_count_s st = 0"
    and "pn_scan_next f (data_s st) False = Some (found, type, d1)"
    and "\<not> (found \<and> type = Some PN_MAP)"
  shows "vscan_code f st (CHR ''{'') c
           = Some (Inr (st\<lparr>data_s := d1, level_s := level_s st + 1\<rparr>, False))"
  using assms by (auto simp add: vscan_code_def resume_dec_def Let_def)

lemma scan_suspended_keeps_cursor:
  assumes "0 < resume_count_s st"
    and "code \<in> set ''noBbHhIicLltfdzSsD{@.''"
  shows "\<exists>st'. vscan_code (Suc f) st code c = Some (Inr (st', False)) \<and> data_s st' = data_s st"
  using assms(2) assms(1)
  by (simp; elim disjE; hypsubst; simp add: vscan_code_def resume_dec_def scan_store_def Let_def)


text \<open>
  C3 (a mismatch of \<open>D\<close>, \<open>@\<close>, \<open>[\<close> or \<open>{\<close> while not suspended suspends the scan), at
  the input where the code does otherwise. The lemmas above give the state after each
  mismatch: \<open>D\<close> and \<open>@\<close> set \<open>resume_count\<close> to 3 and count themselves at once (2 is
  left), \<open>[\<close> sets it to 1, all with \<open>count_level\<close> the current level; \<open>{\<close> leaves it at
  0, because its test is \<^verbatim>\<open>if (resume_count)\<close> where the three others have
  \<^verbatim>\<open>if (!suspend)\<close>. On a tree that holds one string, the format \<open>[\<close> ends suspended
  and \<open>{\<close> does not; \<open>[n]S\<close> skips the list pattern and returns 0, and \<open>{n}S\<close> is
  stopped at \<open>}\<close> with \<open>PN_ERR\<close> (exit failed).
\<close>

theorem map_mismatch_does_not_suspend:
  "map_option (\<lambda>(e, st). (e, resume_count_s st, count_level_s st))
      (pn_data_vscan 8 (pn_data_put_string (pn_data 1) [0x68, 0x69]) ''['' []) = Some (None, 1, 0)
   \<and> map_option (\<lambda>(e, st). (e, resume_count_s st, count_level_s st))
      (pn_data_vscan 8 (pn_data_put_string (pn_data 1) [0x68, 0x69]) ''{'' []) = Some (None, 0, - 1)
   \<and> map_option fst (pn_data_vscan 8 (pn_data_put_string (pn_data 1) [0x68, 0x69]) ''[n]S'' [])
       = Some None
   \<and> map_option fst (pn_data_vscan 8 (pn_data_put_string (pn_data 1) [0x68, 0x69]) ''{n}S'' [])
       = Some (Some PN_ERR)"
  by code_simp

end
